theory Spec2Isabelle
  imports Complex_Main "HOL-Library.AList"
begin

section \<open>Python values, dictionaries and exceptions\<close>

text \<open>
  The model follows \<^verbatim>\<open>rosette/api.py\<close>. Where the module's behaviour depends on the
  interpreter (the constant \<^verbatim>\<open>_IsPy3\<close>, the rendering of bytes, \<^verbatim>\<open>iteritems\<close>), the
  model branches on the parameter \<open>is_py3\<close> of the environment. Byte strings and text
  are both modelled as \<open>string\<close>, a list of 8-bit characters.

  A Python dictionary with string keys is an association list with distinct keys,
  kept in insertion order; \<^verbatim>\<open>d[k] = v\<close> is \<open>AList.update k v d\<close>, \<^verbatim>\<open>k in d\<close> is
  \<open>map_of d k \<noteq> None\<close>, and \<^verbatim>\<open>d[k]\<close> raises \<^verbatim>\<open>KeyError\<close> when \<open>map_of d k = None\<close>.
\<close>

datatype pyval =
    PNone
  | PBool bool
  | PInt int
  | PFloat real
  | PStr string
  | PList "pyval list"
  | PDict "(string \<times> pyval) list"

type_synonym dict = "(string \<times> pyval) list"

text \<open>\<^verbatim>\<open>d.update(e)\<close>: every item of \<open>e\<close> is stored into \<open>d\<close>.\<close>

definition dict_update :: "dict \<Rightarrow> dict \<Rightarrow> dict" where
  "dict_update d e = fold (\<lambda>(k, v) acc. AList.update k v acc) e d"

text \<open>\<^verbatim>\<open>dict(pairs)\<close> on a list of (name, value) string pairs, as for response headers.\<close>

definition dict_of_pairs :: "(string \<times> string) list \<Rightarrow> dict" where
  "dict_of_pairs ps = fold (\<lambda>(k, v) acc. AList.update k (PStr v) acc) ps []"

text \<open>
  The exceptions the module can end with. \<open>RosetteException status message
  response_message\<close> is the module's own class (lines 72-87); the others are the Python
  exceptions its statements raise and never catch.
\<close>

datatype error =
    RosetteException pyval pyval pyval
  | ValueError
  | AttributeError string
  | KeyError string
  | TypeError
  | IOError
  | RequestsConnectionError

subsection \<open>\<^verbatim>\<open>repr\<close> of a byte string and \<^verbatim>\<open>str\<close> of a number\<close>

definition hexdigit :: "nat \<Rightarrow> char" where
  "hexdigit n = ''0123456789abcdef'' ! (n mod 16)"

text \<open>
  \<^verbatim>\<open>repr\<close> of a byte string (a Python 2 \<^verbatim>\<open>str\<close>; Python 3 \<^verbatim>\<open>bytes\<close> are rendered the
  same way after the letter \<^verbatim>\<open>b\<close>): the quote is \<^verbatim>\<open>'\<close>, or \<^verbatim>\<open>"\<close> when the string
  holds a \<^verbatim>\<open>'\<close> and no \<^verbatim>\<open>"\<close>; the quote and the backslash are escaped, tab, newline
  and carriage return are written \<^verbatim>\<open>\t\<close>, \<^verbatim>\<open>\n\<close>, \<^verbatim>\<open>\r\<close>, and every other byte
  outside the printable ASCII range as \<^verbatim>\<open>\xNN\<close>.
\<close>

definition repr_char :: "char \<Rightarrow> char \<Rightarrow> string" where
  "repr_char q c =
     (if c = q \<or> c = CHR 0x5C then [CHR 0x5C, c]
      else if c = CHR 0x09 then [CHR 0x5C, CHR ''t'']
      else if c = CHR 0x0A then [CHR 0x5C, CHR ''n'']
      else if c = CHR 0x0D then [CHR 0x5C, CHR ''r'']
      else if (of_char c :: nat) < 32 \<or> (of_char c :: nat) \<ge> 127
        then [CHR 0x5C, CHR ''x'', hexdigit (of_char c div 16), hexdigit (of_char c mod 16)]
      else [c])"

definition repr_str :: "string \<Rightarrow> string" where
  "repr_str s =
     (let q = (if CHR 0x27 \<in> set s \<and> CHR 0x22 \<notin> set s then CHR 0x22 else CHR 0x27)
      in [q] @ concat (map (repr_char q) s) @ [q])"

definition digit_char :: "nat \<Rightarrow> char" where
  "digit_char n = ''0123456789'' ! (n mod 10)"

fun str_nat :: "nat \<Rightarrow> string" where
  "str_nat n = (if n < 10 then [digit_char n] else str_nat (n div 10) @ [digit_char n])"

declare str_nat.simps [simp del]

section \<open>Parameter containers (lines 124-321)\<close>

datatype param_class =
    DocumentParameters
  | RelationshipsParameters
  | NameTranslationParameters
  | NameSimilarityParameters

text \<open>
  An instance of a subclass of \<^verbatim>\<open>_DocumentParamSetBase\<close>: its class, the private
  dictionary \<^verbatim>\<open>__params\<close>, and the attributes \<^verbatim>\<open>file_name\<close> and \<^verbatim>\<open>useMultipart\<close>.
  Only \<^verbatim>\<open>DocumentParameters.__init__\<close> sets \<^verbatim>\<open>file_name\<close>; \<open>None\<close> is an object
  without that attribute.
\<close>

record param_set =
  klass :: param_class
  params :: dict
  file_name :: "string option"
  useMultipart :: bool

text \<open>\<^verbatim>\<open>_DocumentParamSetBase.__init__\<close>: every key of the repertoire is set to \<^verbatim>\<open>None\<close>.\<close>

definition base_init :: "string list \<Rightarrow> dict" where
  "base_init repertoire = fold (\<lambda>k acc. AList.update k PNone acc) repertoire []"

definition repertoire :: "param_class \<Rightarrow> string list" where
  "repertoire c =
     (case c of
        DocumentParameters \<Rightarrow> [''content'', ''contentUri'', ''language'', ''genre'']
      | RelationshipsParameters \<Rightarrow>
          [''content'', ''contentUri'', ''language'', ''options'', ''genre'']
      | NameTranslationParameters \<Rightarrow>
          [''name'', ''targetLanguage'', ''entityType'', ''sourceLanguageOfOrigin'',
           ''sourceLanguageOfUse'', ''sourceScript'', ''targetScript'', ''targetScheme'',
           ''genre'']
      | NameSimilarityParameters \<Rightarrow> [''name1'', ''name2''])"

definition new_DocumentParameters :: param_set where
  "new_DocumentParameters =
     \<lparr>klass = DocumentParameters, params = base_init (repertoire DocumentParameters),
      file_name = Some '''', useMultipart = False\<rparr>"

definition new_RelationshipsParameters :: param_set where
  "new_RelationshipsParameters =
     \<lparr>klass = RelationshipsParameters, params = base_init (repertoire RelationshipsParameters),
      file_name = None, useMultipart = False\<rparr>"

definition new_NameTranslationParameters :: param_set where
  "new_NameTranslationParameters =
     \<lparr>klass = NameTranslationParameters,
      params = base_init (repertoire NameTranslationParameters),
      file_name = None, useMultipart = False\<rparr>"

definition new_NameSimilarityParameters :: param_set where
  "new_NameSimilarityParameters =
     \<lparr>klass = NameSimilarityParameters,
      params = base_init (repertoire NameSimilarityParameters),
      file_name = None, useMultipart = False\<rparr>"

text \<open>\<^verbatim>\<open>__setitem__\<close> (lines 131-135) and \<^verbatim>\<open>__getitem__\<close> (lines 137-141).\<close>

definition setitem :: "param_set \<Rightarrow> string \<Rightarrow> pyval \<Rightarrow> error + param_set" where
  "setitem p key val =
     (if map_of (params p) key = None then
        Inl (RosetteException (PStr ''badKey'') (PStr ''Unknown Rosette parameter key'')
               (PStr (repr_str key)))
      else Inr (p\<lparr>params := AList.update key val (params p)\<rparr>))"

definition getitem :: "param_set \<Rightarrow> string \<Rightarrow> error + pyval" where
  "getitem p key =
     (case map_of (params p) key of
        None \<Rightarrow>
          Inl (RosetteException (PStr ''badKey'') (PStr ''Unknown Rosette parameter key'')
                 (PStr (repr_str key)))
      | Some val \<Rightarrow> Inr val)"

text \<open>\<^verbatim>\<open>DocumentParameters.validate\<close> (lines 189-202).\<close>

definition validate_document :: "param_set \<Rightarrow> error + unit" where
  "validate_document p =
     (case getitem p ''content'' of
        Inl e \<Rightarrow> Inl e
      | Inr content \<Rightarrow>
          if content = PNone then
            (case getitem p ''contentUri'' of
               Inl e \<Rightarrow> Inl e
             | Inr contentUri \<Rightarrow>
                 if contentUri = PNone then
                   Inl (RosetteException (PStr ''badArgument'')
                          (PStr ''Must supply one of Content or ContentUri'')
                          (PStr ''bad arguments''))
                 else Inr ())
          else
            (case getitem p ''contentUri'' of
               Inl e \<Rightarrow> Inl e
             | Inr contentUri \<Rightarrow>
                 if contentUri \<noteq> PNone then
                   Inl (RosetteException (PStr ''badArgument'')
                          (PStr ''Cannot supply both Content and ContentUri'')
                          (PStr ''bad arguments''))
                 else Inr ()))"

text \<open>
  \<^verbatim>\<open>NameTranslationParameters.validate\<close> (lines 281-288): the loop over the required
  names, the first missing one raising.
\<close>

fun validate_name_translation :: "param_set \<Rightarrow> string list \<Rightarrow> error + unit" where
  "validate_name_translation p [] = Inr ()"
| "validate_name_translation p (n # ns) =
     (case getitem p n of
        Inl e \<Rightarrow> Inl e
      | Inr v \<Rightarrow>
          if v = PNone then
            Inl (RosetteException (PStr ''missingParameter'')
                   (PStr ''Required Name Translation parameter not supplied'')
                   (PStr (repr_str n)))
          else validate_name_translation p ns)"

text \<open>\<^verbatim>\<open>NameSimilarityParameters.validate\<close> (lines 314-321).\<close>

fun validate_name_similarity :: "param_set \<Rightarrow> string list \<Rightarrow> error + unit" where
  "validate_name_similarity p [] = Inr ()"
| "validate_name_similarity p (n # ns) =
     (case getitem p n of
        Inl e \<Rightarrow> Inl e
      | Inr v \<Rightarrow>
          if v = PNone then
            Inl (RosetteException (PStr ''missingParameter'')
                   (PStr ''Required Name Similarity parameter not supplied'')
                   (PStr (repr_str n)))
          else validate_name_similarity p ns)"

text \<open>\<^verbatim>\<open>self.validate()\<close>, dispatched on the object's class.\<close>

definition validate :: "param_set \<Rightarrow> error + unit" where
  "validate p =
     (case klass p of
        DocumentParameters \<Rightarrow> validate_document p
      | RelationshipsParameters \<Rightarrow> validate_document p
      | NameTranslationParameters \<Rightarrow>
          validate_name_translation p [''name'', ''targetLanguage'']
      | NameSimilarityParameters \<Rightarrow> validate_name_similarity p [''name1'', ''name2''])"

text \<open>
  \<^verbatim>\<open>_DocumentParamSetBase.serialize\<close> (lines 146-154): validate, then copy every item
  whose value is not \<^verbatim>\<open>None\<close>.
\<close>

definition base_serialize :: "param_set \<Rightarrow> error + dict" where
  "base_serialize p =
     (case validate p of
        Inl e \<Rightarrow> Inl e
      | Inr _ \<Rightarrow>
          Inr (fold (\<lambda>(key, val) v. if val = PNone then v else AList.update key val v)
                 (params p) []))"

text \<open>
  \<^verbatim>\<open>parameters.serialize()\<close>: \<^verbatim>\<open>DocumentParameters.serialize\<close> (lines 204-208, inherited
  by \<^verbatim>\<open>RelationshipsParameters\<close>) validates and then calls the base method, which
  validates again; the name containers inherit the base method.
\<close>

definition serialize :: "param_set \<Rightarrow> error + dict" where
  "serialize p =
     (case klass p of
        DocumentParameters \<Rightarrow>
          (case validate p of Inl e \<Rightarrow> Inl e | Inr _ \<Rightarrow> base_serialize p)
      | RelationshipsParameters \<Rightarrow>
          (case validate p of Inl e \<Rightarrow> Inl e | Inr _ \<Rightarrow> base_serialize p)
      | NameTranslationParameters \<Rightarrow> base_serialize p
      | NameSimilarityParameters \<Rightarrow> base_serialize p)"

text \<open>
  \<^verbatim>\<open>load_document_string\<close> (lines 220-227) and \<^verbatim>\<open>load_document_file\<close> (lines 210-218).
  The file system is the function \<open>read_file\<close>: the bytes \<^verbatim>\<open>open(path, "rb").read()\<close>
  returns, or \<open>None\<close> when it raises \<^verbatim>\<open>IOError\<close>.
\<close>

definition load_document_string :: "param_set \<Rightarrow> pyval \<Rightarrow> error + param_set" where
  "load_document_string p s = setitem p ''content'' s"

definition load_document_file ::
  "(string \<Rightarrow> string option) \<Rightarrow> param_set \<Rightarrow> string \<Rightarrow> error + param_set" where
  "load_document_file read_file p path =
     (let p1 = p\<lparr>useMultipart := True, file_name := Some path\<rparr>
      in case read_file path of
           None \<Rightarrow> Inl IOError
         | Some bytes \<Rightarrow> load_document_string p1 (PStr bytes))"

text \<open>
  The invariant of a container that came from its constructor: the keys of
  \<^verbatim>\<open>__params\<close> are the repertoire of its class.
\<close>

definition wf_params :: "param_set \<Rightarrow> bool" where
  "wf_params p = (map fst (params p) = repertoire (klass p))"

definition is_document :: "param_set \<Rightarrow> bool" where
  "is_document p = (klass p = DocumentParameters \<or> klass p = RelationshipsParameters)"

text \<open>The value stored under a key, \<open>PNone\<close> also for a key the dictionary lacks.\<close>

definition param :: "param_set \<Rightarrow> string \<Rightarrow> pyval" where
  "param p key = (case map_of (params p) key of None \<Rightarrow> PNone | Some v \<Rightarrow> v)"

section \<open>Libraries and the network\<close>

text \<open>
  The interpreter and the libraries the module calls are parameters of the model:
  \<^item> \<open>is_py3\<close> is the module constant \<^verbatim>\<open>_IsPy3\<close> (line 33): whether the interpreter is
    Python 3;
  \<^item> \<open>json_loads\<close> is \<^verbatim>\<open>json.loads\<close> (after \<^verbatim>\<open>obj.decode("utf-8")\<close> under Python 3),
    \<open>None\<close> when it raises \<^verbatim>\<open>ValueError\<close>;
  \<^item> \<open>json_dumps\<close> is \<^verbatim>\<open>json.dumps\<close>: the text, or the exception it raises on a value
    it cannot encode;
  \<^item> \<open>gunzip\<close> is \<^verbatim>\<open>gzip.GzipFile(fileobj=BytesIO(b)).read()\<close>, \<open>None\<close> when it raises;
  \<^item> \<open>urlparse\<close> gives the scheme and the network location of \<^verbatim>\<open>urlparse.urlparse(url)\<close>.
\<close>

record env =
  is_py3 :: bool
  json_loads :: "string \<Rightarrow> pyval option"
  json_dumps :: "pyval \<Rightarrow> error + string"
  gunzip :: "string \<Rightarrow> string option"
  urlparse :: "string \<Rightarrow> string \<times> string"

datatype connection = HTTPSConnection string | HTTPConnection string

record http_request =
  rq_op :: string
  rq_url :: string
  rq_data :: pyval
  rq_headers :: dict

text \<open>
  A request of the \<^verbatim>\<open>requests\<close> library with \<^verbatim>\<open>files=\<close>: each part is its field name
  with the tuple (file name, payload, content type).
\<close>

record multipart_request =
  mp_method :: string
  mp_url :: string
  mp_files :: "(string \<times> string \<times> pyval \<times> string) list"
  mp_headers :: dict

text \<open>
  What the module does to the outside, in order: a new \<^verbatim>\<open>httplib\<close> connection object
  (its socket not yet open), the opening of the socket (\<^verbatim>\<open>httplib\<close> connects by itself
  when \<^verbatim>\<open>request\<close> finds the socket closed), \<^verbatim>\<open>http_connection.request\<close> followed by
  \<^verbatim>\<open>getresponse\<close>, \<^verbatim>\<open>time.sleep\<close>, \<^verbatim>\<open>http_connection.close\<close>, and
  \<^verbatim>\<open>requests.Session().send\<close>.
\<close>

datatype event =
    NewConnection connection
  | Open
  | Request http_request
  | Sleep real
  | Close
  | SessionSend multipart_request

text \<open>
  What the server answers to one request: a response (status, body, headers), or one of
  the two failures \<^verbatim>\<open>_make_request\<close> catches.
\<close>

datatype outcome =
    Response int string "(string \<times> string) list"
  | BadStatusLine
  | gaierror

text \<open>
  The outside world: the scripted server (its answer to the n-th request sent), the
  number of requests sent so far, whether the socket of the client's connection object
  is open, and the trace of events.
\<close>

record world =
  server :: "nat \<Rightarrow> outcome"
  sent :: nat
  sock_open :: bool
  trace :: "event list"

definition emit :: "event \<Rightarrow> world \<Rightarrow> world" where
  "emit e w = w\<lparr>trace := trace w @ [e]\<rparr>"

text \<open>\<^verbatim>\<open>http_connection.close()\<close>.\<close>

definition close_connection :: "world \<Rightarrow> world" where
  "close_connection w = (emit Close w)\<lparr>sock_open := False\<rparr>"

text \<open>
  \<^verbatim>\<open>http_connection.request(op, url, data, headers)\<close> and \<^verbatim>\<open>getresponse()\<close>: the socket
  is opened first when it is closed; it stays closed when the address lookup fails.
\<close>

definition send_request :: "http_request \<Rightarrow> world \<Rightarrow> outcome \<times> world" where
  "send_request rq w =
     (server w (sent w),
      (emit (Request rq) (if sock_open w then w else emit Open w))
        \<lparr>sent := Suc (sent w),
         sock_open := (case server w (sent w) of gaierror \<Rightarrow> False | _ \<Rightarrow> True)\<rparr>)"

definition session_send :: "multipart_request \<Rightarrow> world \<Rightarrow> outcome \<times> world" where
  "session_send rq w =
     (server w (sent w), (emit (SessionSend rq) w)\<lparr>sent := Suc (sent w)\<rparr>)"

section \<open>Module constants and helpers (lines 30-69)\<close>

definition BINDING_VERSION :: string where
  "BINDING_VERSION = ''1.1''"

definition GZIP_SIGNATURE :: string where
  "GZIP_SIGNATURE = [CHR 0x1F, CHR 0x8B, CHR 0x08]"

record ReturnObject =
  r_json :: dict
  status_code :: int

text \<open>
  \<^verbatim>\<open>_my_loads\<close> (lines 61-69): \<^verbatim>\<open>json.loads(obj).copy()\<close> raises \<^verbatim>\<open>ValueError\<close> on text
  that is not JSON and \<^verbatim>\<open>AttributeError\<close> on a JSON value that is not an object; a
  Python 3 list has \<^verbatim>\<open>copy\<close> and fails at \<^verbatim>\<open>update\<close>.
\<close>

definition my_loads :: "env \<Rightarrow> string \<Rightarrow> dict \<Rightarrow> error + dict" where
  "my_loads env obj response_headers =
     (case json_loads env obj of
        None \<Rightarrow> Inl ValueError
      | Some (PDict d) \<Rightarrow> Inr (dict_update d response_headers)
      | Some (PList xs) \<Rightarrow>
          Inl (AttributeError (if is_py3 env then ''update'' else ''copy''))
      | Some _ \<Rightarrow> Inl (AttributeError ''copy''))"

text \<open>\<^verbatim>\<open>os.path.basename\<close>: what follows the last slash.\<close>

definition basename :: "string \<Rightarrow> string" where
  "basename path = rev (takeWhile (\<lambda>c. c \<noteq> CHR ''/'') (rev path))"

text \<open>\<^verbatim>\<open>range(n)\<close>.\<close>

definition py_range :: "int \<Rightarrow> nat list" where
  "py_range n = [0..<nat n]"

section \<open>The transport: class \<^verbatim>\<open>API\<close> (lines 475-615)\<close>

record API =
  user_key :: "string option"
  service_url :: string
  debug :: bool
  num_retries :: int
  reuse_connection :: bool
  connection_refresh_duration :: real
  http_connection :: "connection option"

text \<open>\<^verbatim>\<open>API.__init__\<close> (lines 482-511).\<close>

definition API_init :: "string option \<Rightarrow> string \<Rightarrow> int \<Rightarrow> bool \<Rightarrow> real \<Rightarrow> bool \<Rightarrow> API" where
  "API_init key url retries reuse refresh_duration dbg =
     \<lparr>user_key = key,
      service_url = (if url \<noteq> [] \<and> last url = CHR ''/'' then url else url @ ''/''),
      debug = dbg,
      num_retries = (if retries < 1 then 1 else retries),
      reuse_connection = reuse,
      connection_refresh_duration = (if refresh_duration < 0 then 0 else refresh_duration),
      http_connection = None\<rparr>"

definition new_connection :: "string \<times> string \<Rightarrow> connection" where
  "new_connection parsedUrl =
     (if fst parsedUrl = ''https'' then HTTPSConnection (snd parsedUrl)
      else HTTPConnection (snd parsedUrl))"

text \<open>
  \<^verbatim>\<open>API._connect\<close> (lines 513-522): a new connection object, whose socket is not open,
  unless the connection is reused and there is one.
\<close>

definition connect :: "API \<Rightarrow> string \<times> string \<Rightarrow> world \<Rightarrow> API \<times> world" where
  "connect api parsedUrl w =
     (if \<not> reuse_connection api \<or> http_connection api = None then
        (api\<lparr>http_connection := Some (new_connection parsedUrl)\<rparr>,
         (emit (NewConnection (new_connection parsedUrl)) w)\<lparr>sock_open := False\<rparr>)
      else (api, w))"

text \<open>
  \<^verbatim>\<open>"{0} ({1})".format(rdata, i)\<close> (line 556): a Python 2 byte string is rendered as it
  is, Python 3 bytes as \<^verbatim>\<open>b\<close> followed by their \<^verbatim>\<open>repr\<close>.
\<close>

definition format_429 :: "env \<Rightarrow> string \<Rightarrow> nat \<Rightarrow> string" where
  "format_429 env rdata i =
     (if is_py3 env then ''b'' @ repr_str rdata else rdata) @ '' ('' @ str_nat i @ '')''"

text \<open>
  The loop of \<^verbatim>\<open>_make_request\<close> (lines 542-582) over the attempt indices still to
  run, with the local variables \<^verbatim>\<open>message\<close> and \<^verbatim>\<open>code\<close>; the empty list is the code
  after the loop. \<^verbatim>\<open>response.read()\<close> returns a string, so the test
  \<^verbatim>\<open>rdata is not None\<close> of line 561 holds; the handler of lines 571-572 raises again
  whatever the parse raised.
\<close>

fun make_request_loop ::
  "env \<Rightarrow> http_request \<Rightarrow> string \<times> string \<Rightarrow> nat list \<Rightarrow> pyval \<Rightarrow> pyval \<Rightarrow> API \<Rightarrow> world
     \<Rightarrow> (error + string \<times> int \<times> dict) \<times> API \<times> world" where
  "make_request_loop env rq parsedUrl [] message code api w =
     (Inl (RosetteException code message (PStr (rq_url rq))), api,
      if \<not> reuse_connection api then close_connection w else w)"
| "make_request_loop env rq parsedUrl (i # rest) message code api w =
     (case send_request rq w of
        (BadStatusLine, w1) \<Rightarrow>
          (Inl (RosetteException (PStr ''ConnectionError'')
                  (PStr ''Unable to establish connection to the Rosette API server'')
                  (PStr (rq_url rq))), api, w1)
      | (gaierror, w1) \<Rightarrow>
          (Inl (RosetteException (PStr ''ConnectionError'')
                  (PStr ''Unable to establish connection to the Rosette API server'')
                  (PStr (rq_url rq))), api, w1)
      | (Response status rdata hdrs, w1) \<Rightarrow>
          (let response_headers = [(''responseHeaders'', PDict (dict_of_pairs hdrs))] in
           if status = 200 then
             (Inr (rdata, status, response_headers), api,
              if \<not> reuse_connection api then close_connection w1 else w1)
           else if status = 429 then
             (case connect api parsedUrl
                     (close_connection
                        (emit (Sleep (connection_refresh_duration api)) w1)) of
                (api2, w2) \<Rightarrow>
                  make_request_loop env rq parsedUrl rest
                    (PStr (format_429 env rdata i)) (PInt status) api2 w2)
           else
             (case my_loads env rdata response_headers of
                Inl e \<Rightarrow> (Inl e, api, w1)
              | Inr the_json \<Rightarrow>
                  (Inl (RosetteException
                          (case map_of the_json ''code'' of
                             Some c \<Rightarrow> c
                           | None \<Rightarrow> PInt status)
                          (case map_of the_json ''message'' of
                             Some m \<Rightarrow> m
                           | None \<Rightarrow> message)
                          (PStr (rq_url rq))), api, w1))))"

text \<open>\<^verbatim>\<open>API._make_request\<close> (lines 524-582).\<close>

definition make_request ::
  "env \<Rightarrow> API \<Rightarrow> string \<Rightarrow> string \<Rightarrow> pyval \<Rightarrow> dict \<Rightarrow> world
     \<Rightarrow> (error + string \<times> int \<times> dict) \<times> API \<times> world" where
  "make_request env api op url data headers w =
     (let headers1 = AList.update ''User-Agent'' (PStr (''RosetteAPIPython/'' @ BINDING_VERSION))
                       headers;
          parsedUrl = urlparse env url
      in case connect api parsedUrl w of
           (api1, w1) \<Rightarrow>
             make_request_loop env
               \<lparr>rq_op = op, rq_url = url, rq_data = data, rq_headers = headers1\<rparr>
               parsedUrl (py_range (num_retries api1 + 1)) PNone (PStr ''unknownError'')
               api1 w1)"

text \<open>\<^verbatim>\<open>API._get_http\<close> (lines 584-593).\<close>

definition get_http ::
  "env \<Rightarrow> API \<Rightarrow> string \<Rightarrow> dict \<Rightarrow> world \<Rightarrow> (error + ReturnObject) \<times> API \<times> world" where
  "get_http env api url headers w =
     (case make_request env api ''GET'' url PNone headers w of
        (Inl e, api1, w1) \<Rightarrow> (Inl e, api1, w1)
      | (Inr (rdata, status, response_headers), api1, w1) \<Rightarrow>
          (case my_loads env rdata response_headers of
             Inl e \<Rightarrow> (Inl e, api1, w1)
           | Inr js \<Rightarrow> (Inr \<lparr>r_json = js, status_code = status\<rparr>, api1, w1)))"

text \<open>
  \<^verbatim>\<open>API._post_http\<close> (lines 595-615). When \<^verbatim>\<open>json.dumps(data)\<close> raises (line 606),
  nothing has been sent.
\<close>

definition post_http ::
  "env \<Rightarrow> API \<Rightarrow> string \<Rightarrow> pyval \<Rightarrow> dict \<Rightarrow> world \<Rightarrow> (error + ReturnObject) \<times> API \<times> world" where
  "post_http env api url data headers w =
     (case (if data = PNone then Inr '''' else json_dumps env data) of
        Inl e \<Rightarrow> (Inl e, api, w)
      | Inr json_data \<Rightarrow>
          (case make_request env api ''POST'' url (PStr json_data) headers w of
             (Inl e, api1, w1) \<Rightarrow> (Inl e, api1, w1)
           | (Inr (rdata, status, response_headers), api1, w1) \<Rightarrow>
               (case (if length rdata > 3 \<and> take 3 rdata = GZIP_SIGNATURE
                      then gunzip env rdata else Some rdata) of
                  None \<Rightarrow> (Inl IOError, api1, w1)
                | Some rdata1 \<Rightarrow>
                    (case my_loads env rdata1 response_headers of
                       Inl e \<Rightarrow> (Inl e, api1, w1)
                     | Inr js \<Rightarrow>
                         (Inr \<lparr>r_json = js, status_code = status\<rparr>, api1, w1)))))"

section \<open>Class \<^verbatim>\<open>EndpointCaller\<close> (lines 324-472)\<close>

text \<open>
  \<open>suburl = None\<close> is the caller \<^verbatim>\<open>API.ping\<close> and \<^verbatim>\<open>API.info\<close> build. The field \<open>ec_api\<close>
  is the \<^verbatim>\<open>API\<close> object the caller shares with its creator.
\<close>

record EndpointCaller =
  ec_service_url :: string
  ec_user_key :: "string option"
  ec_useMultipart :: bool
  suburl :: "string option"
  ec_debug :: bool
  ec_api :: API

text \<open>\<^verbatim>\<open>EndpointCaller.__init__\<close> (lines 341-351).\<close>

definition EndpointCaller_init :: "API \<Rightarrow> string option \<Rightarrow> EndpointCaller" where
  "EndpointCaller_init api sub =
     \<lparr>ec_service_url = service_url api, ec_user_key = user_key api, ec_useMultipart = False,
      suburl = sub, ec_debug = debug api, ec_api = api\<rparr>"

text \<open>\<^verbatim>\<open>EndpointCaller.__finish_result\<close> (lines 353-369).\<close>

definition finish_result :: "EndpointCaller \<Rightarrow> ReturnObject \<Rightarrow> string \<Rightarrow> error + dict" where
  "finish_result ec r ename =
     (let code = status_code r; the_json = r_json r
      in if code = 200 then Inr the_json
         else
           (case (case map_of the_json ''message'' of
                    Some m \<Rightarrow> Inr m
                  | None \<Rightarrow>
                      (case map_of the_json ''code'' of
                         Some c \<Rightarrow> Inr c
                       | None \<Rightarrow> Inl (KeyError ''code''))) of
              Inl e \<Rightarrow> Inl e
            | Inr msg \<Rightarrow>
                (let complaint_url =
                       (case suburl ec of
                          None \<Rightarrow> ''Top level info''
                        | Some sub \<Rightarrow> ename @ '' '' @ sub)
                 in Inl (RosetteException (PInt code)
                           (PStr (complaint_url @ '' : failed to communicate with Rosette''))
                           msg))))"

text \<open>
  The argument of \<^verbatim>\<open>call\<close>: an instance of \<^verbatim>\<open>_DocumentParamSetBase\<close>, or any other
  value (a plain string).
\<close>

datatype call_arg = Container param_set | Plain pyval

text \<open>
  The multipart branch of \<^verbatim>\<open>call\<close> (lines 441-463). Line 444 calls
  \<^verbatim>\<open>params_to_serialize.iteritems()\<close>, which a Python 3 dictionary does not have: there
  the branch raises \<^verbatim>\<open>AttributeError\<close> before anything is built. Under Python 2 the
  dictionary display of lines 445-454 evaluates the base name of \<^verbatim>\<open>file_name\<close>, the
  lookup of \<^verbatim>\<open>content\<close> and \<^verbatim>\<open>json.dumps(params)\<close> in that order, each of which can
  raise; then the request is sent once through \<^verbatim>\<open>requests\<close>.
\<close>

definition call_multipart_branch ::
  "env \<Rightarrow> EndpointCaller \<Rightarrow> param_set \<Rightarrow> string \<Rightarrow> dict \<Rightarrow> dict \<Rightarrow> world
     \<Rightarrow> (error + dict) \<times> EndpointCaller \<times> world" where
  "call_multipart_branch env ec1 parameters url params_to_serialize headers w =
     (if is_py3 env then (Inl (AttributeError ''iteritems''), ec1, w)
      else
        (let request_params = filter (\<lambda>(key, val). key = ''language'') params_to_serialize
         in case file_name parameters of
              None \<Rightarrow> (Inl (AttributeError ''file_name''), ec1, w)
            | Some fname \<Rightarrow>
                (case map_of params_to_serialize ''content'' of
                   None \<Rightarrow> (Inl (KeyError ''content''), ec1, w)
                 | Some content \<Rightarrow>
                     (case json_dumps env (PDict request_params) of
                        Inl e \<Rightarrow> (Inl e, ec1, w)
                      | Inr request_json \<Rightarrow>
                          (case session_send
                                  \<lparr>mp_method = ''POST'', mp_url = url,
                                   mp_files =
                                     [(''content'', basename fname, content, ''text/plain''),
                                      (''request'', ''request_options'', PStr request_json,
                                       ''application/json'')],
                                   mp_headers = headers\<rparr> w of
                             (Response status rdata hdrs, w1) \<Rightarrow>
                               (case my_loads env rdata
                                       [(''responseHeaders'', PDict (dict_of_pairs hdrs))] of
                                  Inl e \<Rightarrow> (Inl e, ec1, w1)
                                | Inr js \<Rightarrow>
                                    (finish_result ec1
                                       \<lparr>r_json = js, status_code = status\<rparr> ''operate'',
                                     ec1, w1))
                           | (_, w1) \<Rightarrow> (Inl RequestsConnectionError, ec1, w1))))))"

text \<open>
  \<^verbatim>\<open>EndpointCaller.call\<close> from line 432 on, for a container. Logging has no effect
  on the result and is left out.
\<close>

definition call_container ::
  "env \<Rightarrow> EndpointCaller \<Rightarrow> param_set \<Rightarrow> world \<Rightarrow> (error + dict) \<times> EndpointCaller \<times> world" where
  "call_container env ec parameters w =
     (let ec1 = ec\<lparr>ec_useMultipart := useMultipart parameters\<rparr>
      in case suburl ec1 of
           None \<Rightarrow> (Inl TypeError, ec1, w)
         | Some sub \<Rightarrow>
             (let url = ec_service_url ec1 @ sub
              in case serialize parameters of
                   Inl e \<Rightarrow> (Inl e, ec1, w)
                 | Inr params_to_serialize \<Rightarrow>
                     (let headers =
                            (case ec_user_key ec1 of
                               None \<Rightarrow> []
                             | Some key \<Rightarrow>
                                 [(''X-RosetteAPI-Key'', PStr key),
                                  (''X-RosetteAPI-Binding'', PStr ''python''),
                                  (''X-RosetteAPI-Binding-Version'', PStr BINDING_VERSION)])
                      in if ec_useMultipart ec1 then
                           call_multipart_branch env ec1 parameters url params_to_serialize
                             headers w
                         else
                           (let headers1 =
                                  (if ec_debug ec1
                                   then AList.update ''X-RosetteAPI-Devel'' (PBool True) headers
                                   else headers);
                                headers2 =
                                  AList.update ''Content-Type'' (PStr ''application/json'')
                                    (AList.update ''Accept-Encoding'' (PStr ''gzip'')
                                       (AList.update ''Accept'' (PStr ''application/json'')
                                          headers1))
                            in case post_http env (ec_api ec1) url (PDict params_to_serialize)
                                      headers2 w of
                                 (Inl e, api1, w1) \<Rightarrow> (Inl e, ec1\<lparr>ec_api := api1\<rparr>, w1)
                               | (Inr r, api1, w1) \<Rightarrow>
                                   (finish_result ec1 r ''operate'',
                                    ec1\<lparr>ec_api := api1\<rparr>, w1)))))"

text \<open>\<^verbatim>\<open>EndpointCaller.call\<close> (lines 401-472): lines 421-430, then the rest.\<close>

definition call ::
  "env \<Rightarrow> EndpointCaller \<Rightarrow> call_arg \<Rightarrow> world \<Rightarrow> (error + dict) \<times> EndpointCaller \<times> world" where
  "call env ec parameters w =
     (case parameters of
        Container p \<Rightarrow> call_container env ec p w
      | Plain txt \<Rightarrow>
          if suburl ec \<noteq> Some ''name-similarity'' \<and> suburl ec \<noteq> Some ''name-translation'' then
            (case setitem new_DocumentParameters ''content'' txt of
               Inl e \<Rightarrow> (Inl e, ec, w)
             | Inr p \<Rightarrow> call_container env ec p w)
          else
            (Inl (RosetteException (PStr ''incompatible'')
                    (PStr ''Text-only input only works for DocumentParameter endpoints'')
                    (case suburl ec of None \<Rightarrow> PNone | Some sub \<Rightarrow> PStr sub)), ec, w))"

section \<open>Notions used to state the properties\<close>

text \<open>The durations of the \<^verbatim>\<open>time.sleep\<close> calls of a trace, in order.\<close>

definition sleeps :: "event list \<Rightarrow> real list" where
  "sleeps tr = concat (map (\<lambda>e. case e of Sleep d \<Rightarrow> [d] | _ \<Rightarrow> []) tr)"

text \<open>The requests sent over the \<^verbatim>\<open>httplib\<close> connection in a trace, in order.\<close>

definition requests_of :: "event list \<Rightarrow> http_request list" where
  "requests_of tr = concat (map (\<lambda>e. case e of Request rq \<Rightarrow> [rq] | _ \<Rightarrow> []) tr)"

text \<open>
  The state \<^verbatim>\<open>_connect\<close> leaves behind: a connection object exists, and without
  connection reuse it is the one for the parsed URL.
\<close>

definition connected :: "API \<Rightarrow> string \<times> string \<Rightarrow> bool" where
  "connected api parsedUrl =
     (http_connection api \<noteq> None \<and>
      (reuse_connection api \<or> http_connection api = Some (new_connection parsedUrl)))"

text \<open>
  The events of one attempt that was answered with status 429, after the socket was
  opened: the request, the sleep, the close and what \<^verbatim>\<open>_connect\<close> does next.
\<close>

definition retry_events :: "API \<Rightarrow> http_request \<Rightarrow> string \<times> string \<Rightarrow> event list" where
  "retry_events api rq parsedUrl =
     [Request rq, Sleep (connection_refresh_duration api), Close] @
     (if reuse_connection api then [] else [NewConnection (new_connection parsedUrl)])"

text \<open>
  The events of \<open>k\<close> attempts in a row that were answered with status 429, the socket
  being open or not before the first of them: every later attempt finds it closed.
\<close>

definition attempts_429 ::
  "API \<Rightarrow> http_request \<Rightarrow> string \<times> string \<Rightarrow> bool \<Rightarrow> nat \<Rightarrow> event list" where
  "attempts_429 api rq parsedUrl was_open k =
     concat (map (\<lambda>j. (if j = 0 \<and> was_open then [] else [Open]) @
                       retry_events api rq parsedUrl) [0..<k])"

text \<open>
  The decoding of a response body as the specification words it: a body that begins with
  the three-byte gzip signature is inflated before it is parsed.
\<close>

definition decode_as_specified :: "env \<Rightarrow> string \<Rightarrow> dict \<Rightarrow> error + dict" where
  "decode_as_specified env rdata response_headers =
     (if take 3 rdata = GZIP_SIGNATURE then
        (case gunzip env rdata of
           None \<Rightarrow> Inl IOError
         | Some raw \<Rightarrow> my_loads env raw response_headers)
      else my_loads env rdata response_headers)"

section \<open>Sample inputs\<close>

definition doc_with_uri :: param_set where
  "doc_with_uri =
     new_DocumentParameters
       \<lparr>params := AList.update ''contentUri'' (PStr ''http://example.com/a.html'')
                   (params new_DocumentParameters)\<rparr>"

definition translation_name_only :: param_set where
  "translation_name_only =
     new_NameTranslationParameters
       \<lparr>params := AList.update ''name'' (PStr ''Vladimir'')
                   (params new_NameTranslationParameters)\<rparr>"

text \<open>The JSON text \<^verbatim>\<open>{"ok":true}\<close> and its gzip-compressed form (31 bytes).\<close>

definition json_ok_true :: string where
  "json_ok_true = ''{'' @ [CHR 0x22] @ ''ok'' @ [CHR 0x22] @ '':true}''"

definition gzip_ok_true :: string where
  "gzip_ok_true =
     [CHR 0x1F, CHR 0x8B, CHR 0x08, CHR 0x00, CHR 0x00, CHR 0x00, CHR 0x00, CHR 0x00,
      CHR 0x02, CHR 0xFF, CHR 0xAB, CHR 0x56, CHR 0xCA, CHR 0xCF, CHR 0x56, CHR 0xB2,
      CHR 0x2A, CHR 0x29, CHR 0x2A, CHR 0x4D, CHR 0xAD, CHR 0x05, CHR 0x00, CHR 0x90,
      CHR 0x5F, CHR 0xD4, CHR 0xA7, CHR 0x0B, CHR 0x00, CHR 0x00, CHR 0x00]"

text \<open>
  A sample environment for the examples. Its functions agree with the libraries on the
  inputs the examples feed them: \<open>json_loads\<close> knows the JSON texts \<^verbatim>\<open>{"ok":true}\<close> and
  \<^verbatim>\<open>{}\<close> and rejects the non-JSON bodies used below; \<open>json_dumps\<close> knows the empty
  object and the objects with the one key \<^verbatim>\<open>language\<close> or \<^verbatim>\<open>content\<close> used below;
  \<open>gunzip\<close> inflates the one
  compressed text above and fails on the bare signature; \<open>urlparse\<close> splits a plain
  \<^verbatim>\<open>http://\<close> or \<^verbatim>\<open>https://\<close> URL.
\<close>

definition sample_env :: env where
  "sample_env =
     \<lparr>is_py3 = False,
      json_loads =
        (\<lambda>s. if s = json_ok_true then Some (PDict [(''ok'', PBool True)])
             else if s = ''{}'' then Some (PDict [])
             else None),
      json_dumps =
        (\<lambda>v. if v = PDict [(''language'', PStr ''eng'')]
               then Inr (''{'' @ [CHR 0x22] @ ''language'' @ [CHR 0x22] @ '': '' @
                         [CHR 0x22] @ ''eng'' @ [CHR 0x22] @ ''}'')
             else if v = PDict [(''content'', PStr ''Bonjour'')]
               then Inr (''{'' @ [CHR 0x22] @ ''content'' @ [CHR 0x22] @ '': '' @
                         [CHR 0x22] @ ''Bonjour'' @ [CHR 0x22] @ ''}'')
             else if v = PDict [] then Inr ''{}''
             else Inl TypeError),
      gunzip = (\<lambda>b. if b = gzip_ok_true then Some json_ok_true else None),
      urlparse =
        (\<lambda>u. if take 8 u = ''https://''
               then (''https'', takeWhile (\<lambda>c. c \<noteq> CHR ''/'') (drop 8 u))
             else if take 7 u = ''http://''
               then (''http'', takeWhile (\<lambda>c. c \<noteq> CHR ''/'') (drop 7 u))
             else ('''', ''''))\<rparr>"

text \<open>The same environment under Python 3.\<close>

definition sample_env_py3 :: env where
  "sample_env_py3 = sample_env\<lparr>is_py3 := True\<rparr>"

definition sample_url :: string where
  "sample_url = ''https://api.rosette.com/rest/v1/entities''"

definition api_default :: API where
  "api_default = API_init (Some ''k3y'') ''https://api.rosette.com/rest/v1'' 5 True 0.5 False"

definition api_retries_1 :: API where
  "api_retries_1 = API_init (Some ''k3y'') ''https://api.rosette.com/rest/v1/'' 1 True 0.5 False"


definition world_all_429 :: world where
  "world_all_429 =
     \<lparr>server = (\<lambda>n. Response 429 ''slow down'' []), sent = 0, sock_open = False,
      trace = []\<rparr>"

definition world_429_then :: "outcome \<Rightarrow> world" where
  "world_429_then r =
     \<lparr>server = (\<lambda>n. if n < 1 then Response 429 ''slow down'' [] else r),
      sent = 0, sock_open = False, trace = []\<rparr>"

definition world_always :: "outcome \<Rightarrow> world" where
  "world_always r = \<lparr>server = (\<lambda>n. r), sent = 0, sock_open = False, trace = []\<rparr>"

definition ec_entities :: EndpointCaller where
  "ec_entities = EndpointCaller_init api_default (Some ''entities'')"

definition ec_name_similarity :: EndpointCaller where
  "ec_name_similarity = EndpointCaller_init api_default (Some ''name-similarity'')"

text \<open>The file system of the examples: one file, \<^verbatim>\<open>/tmp/doc.txt\<close>.\<close>

definition sample_files :: "string \<Rightarrow> string option" where
  "sample_files path = (if path = ''/tmp/doc.txt'' then Some ''Bonjour'' else None)"

text \<open>A fresh document container with the language set.\<close>

definition doc_lang_eng :: param_set where
  "doc_lang_eng =
     new_DocumentParameters
       \<lparr>params := AList.update ''language'' (PStr ''eng'') (params new_DocumentParameters)\<rparr>"

text \<open>
  The container \<open>doc_with_uri\<close> after \<^verbatim>\<open>load_document_file("/tmp/doc.txt")\<close>: both
  \<^verbatim>\<open>content\<close> and \<^verbatim>\<open>contentUri\<close> are set.
\<close>

definition doc_file_and_uri :: param_set where
  "doc_file_and_uri =
     \<lparr>klass = DocumentParameters,
      params = [(''content'', PStr ''Bonjour''),
                (''contentUri'', PStr ''http://example.com/a.html''),
                (''language'', PNone), (''genre'', PNone)],
      file_name = Some ''/tmp/doc.txt'', useMultipart = True\<rparr>"

text \<open>The container \<open>doc_lang_eng\<close> after \<^verbatim>\<open>load_document_file("/tmp/doc.txt")\<close>.\<close>

definition doc_from_file :: param_set where
  "doc_from_file =
     \<lparr>klass = DocumentParameters,
      params = [(''content'', PStr ''Bonjour''), (''contentUri'', PNone),
                (''language'', PStr ''eng''), (''genre'', PNone)],
      file_name = Some ''/tmp/doc.txt'', useMultipart = True\<rparr>"

section \<open>Properties of the parameter containers\<close>

lemma update_fresh: "k \<notin> fst ` set al \<Longrightarrow> AList.update k v al = al @ [(k, v)]"
  by (induction al) auto

lemma fold_serialize:
  "distinct (map fst xs) \<Longrightarrow> fst ` set acc \<inter> fst ` set xs = {} \<Longrightarrow>
   fold (\<lambda>(key, val) v. if val = PNone then v else AList.update key val v) xs acc
     = acc @ filter (\<lambda>(k, v). v \<noteq> PNone) xs"
proof (induction xs arbitrary: acc)
  case Nil
  then show ?case by simp
next
  case (Cons x xs)
  obtain k v where x: "x = (k, v)" by (cases x)
  show ?case
  proof (cases "v = PNone")
    case True
    with Cons x show ?thesis by auto
  next
    case False
    from Cons.prems x have fresh: "k \<notin> fst ` set acc" by auto
    have d: "distinct (map fst xs)" using Cons.prems by simp
    have "fst ` set (acc @ [(k, v)]) \<inter> fst ` set xs = {}"
      using Cons.prems x by auto
    from Cons.IH [OF d this] False x fresh show ?thesis
      by (simp add: update_fresh)
  qed
qed

lemma distinct_repertoire: "distinct (repertoire c)"
  by (cases c) (simp_all add: repertoire_def)

lemma wf_params_distinct: "wf_params p \<Longrightarrow> distinct (map fst (params p))"
  by (simp add: wf_params_def distinct_repertoire)

lemma base_init_keys: "map fst (base_init (repertoire c)) = repertoire c"
  by (cases c) (simp_all add: repertoire_def base_init_def)

lemma wf_new_DocumentParameters: "wf_params new_DocumentParameters"
  by (simp add: wf_params_def new_DocumentParameters_def base_init_keys)

lemma map_of_wf: "wf_params p \<Longrightarrow> (map_of (params p) key \<noteq> None) = (key \<in> set (repertoire (klass p)))"
  unfolding wf_params_def by (metis map_of_eq_None_iff set_map)

lemma wf_setitem: "wf_params p \<Longrightarrow> setitem p key val = Inr p' \<Longrightarrow> wf_params p'"
proof -
  assume wf: "wf_params p" and s: "setitem p key val = Inr p'"
  from s have k: "map_of (params p) key \<noteq> None" and p': "p' = p\<lparr>params := AList.update key val (params p)\<rparr>"
    by (auto simp: setitem_def split: if_splits)
  from k have "key \<in> set (map fst (params p))"
    by (simp add: map_of_eq_None_iff)
  then have "map fst (AList.update key val (params p)) = map fst (params p)"
    by (simp add: update_keys)
  then show ?thesis using wf p' by (simp add: wf_params_def)
qed

lemma getitem_param: "map_of (params p) key \<noteq> None \<Longrightarrow> getitem p key = Inr (param p key)"
  by (auto simp: getitem_def param_def)

text \<open>
  Claim C9. In a container whose keys are the repertoire of its class, setting a key of
  the repertoire and then reading it returns the value set; for any other key both
  \<^verbatim>\<open>__setitem__\<close> and \<^verbatim>\<open>__getitem__\<close> raise \<^verbatim>\<open>RosetteException("badKey", ...)\<close> whose
  third field is \<^verbatim>\<open>repr(key)\<close>.
\<close>

theorem setitem_getitem:
  assumes "wf_params p"
  shows "(key \<in> set (repertoire (klass p)) \<longrightarrow>
            (\<exists>p'. setitem p key val = Inr p' \<and> getitem p' key = Inr val \<and> wf_params p'))
       \<and> (key \<notin> set (repertoire (klass p)) \<longrightarrow>
            setitem p key val =
              Inl (RosetteException (PStr ''badKey'') (PStr ''Unknown Rosette parameter key'')
                     (PStr (repr_str key)))
          \<and> getitem p key =
              Inl (RosetteException (PStr ''badKey'') (PStr ''Unknown Rosette parameter key'')
                     (PStr (repr_str key))))"
proof (intro conjI impI)
  assume k: "key \<in> set (repertoire (klass p))"
  with assms have in_dict: "map_of (params p) key \<noteq> None"
    using map_of_wf by blast
  define p' where "p' = p\<lparr>params := AList.update key val (params p)\<rparr>"
  from in_dict have s: "setitem p key val = Inr p'"
    by (simp add: setitem_def p'_def)
  have "getitem p' key = Inr val"
    by (simp add: getitem_def p'_def update_conv')
  with s wf_setitem [OF assms s]
  show "\<exists>p'. setitem p key val = Inr p' \<and> getitem p' key = Inr val \<and> wf_params p'"
    by blast
next
  assume k: "key \<notin> set (repertoire (klass p))"
  with assms have "map_of (params p) key = None"
    using map_of_wf by blast
  then show "setitem p key val =
              Inl (RosetteException (PStr ''badKey'') (PStr ''Unknown Rosette parameter key'')
                     (PStr (repr_str key)))"
    and "getitem p key =
              Inl (RosetteException (PStr ''badKey'') (PStr ''Unknown Rosette parameter key'')
                     (PStr (repr_str key)))"
    by (simp_all add: setitem_def getitem_def)
qed

theorem setitem_getitem_witness:
  "(\<exists>p'. setitem new_DocumentParameters ''language'' (PStr ''eng'') = Inr p'
         \<and> getitem p' ''language'' = Inr (PStr ''eng'') \<and> wf_params p')
   \<and> setitem new_DocumentParameters ''lang'' (PStr ''eng'') =
        Inl (RosetteException (PStr ''badKey'') (PStr ''Unknown Rosette parameter key'')
               (PStr [CHR 0x27, CHR ''l'', CHR ''a'', CHR ''n'', CHR ''g'', CHR 0x27]))
   \<and> getitem new_DocumentParameters ''lang'' =
        Inl (RosetteException (PStr ''badKey'') (PStr ''Unknown Rosette parameter key'')
               (PStr [CHR 0x27, CHR ''l'', CHR ''a'', CHR ''n'', CHR ''g'', CHR 0x27]))"
  using setitem_getitem [OF wf_new_DocumentParameters, of "''language''" "PStr ''eng''"]
    setitem_getitem [OF wf_new_DocumentParameters, of "''lang''" "PStr ''eng''"]
  by (simp add: new_DocumentParameters_def repertoire_def repr_str_def repr_char_def Let_def)



lemma map_of_filter_set:
  "distinct (map fst xs) \<Longrightarrow>
   map_of (filter (\<lambda>(k, v). v \<noteq> PNone) xs) key =
     (case map_of xs key of None \<Rightarrow> None | Some v \<Rightarrow> if v = PNone then None else Some v)"
proof (induction xs)
  case Nil
  then show ?case by simp
next
  case (Cons x xs)
  obtain k v where x: "x = (k, v)" by (cases x)
  from Cons.prems x have "k \<notin> fst ` set xs" by simp
  then have none: "map_of xs k = None"
    by (simp add: map_of_eq_None_iff)
  then have "map_of (filter (\<lambda>(k, v). v \<noteq> PNone) xs) k = None"
    by (simp add: map_of_eq_None_iff) force
  with Cons x none show ?case by auto
qed

lemma base_serialize_ok:
  assumes "wf_params p" and "validate p = Inr u"
  shows "base_serialize p = Inr (filter (\<lambda>(k, v). v \<noteq> PNone) (params p))"
  using assms fold_serialize [OF wf_params_distinct [OF assms(1)], of "[]"]
  by (simp add: base_serialize_def)

lemma getitem_wf:
  "wf_params p \<Longrightarrow> key \<in> set (repertoire (klass p)) \<Longrightarrow> getitem p key = Inr (param p key)"
  using map_of_wf getitem_param by blast

lemma validate_document_eq:
  assumes "wf_params p" and "is_document p"
  shows "validate p =
     (if param p ''content'' = PNone \<and> param p ''contentUri'' = PNone then
        Inl (RosetteException (PStr ''badArgument'')
               (PStr ''Must supply one of Content or ContentUri'') (PStr ''bad arguments''))
      else if param p ''content'' \<noteq> PNone \<and> param p ''contentUri'' \<noteq> PNone then
        Inl (RosetteException (PStr ''badArgument'')
               (PStr ''Cannot supply both Content and ContentUri'') (PStr ''bad arguments''))
      else Inr ())"
proof -
  from assms(2) have keys: "''content'' \<in> set (repertoire (klass p))"
    "''contentUri'' \<in> set (repertoire (klass p))"
    by (auto simp: is_document_def repertoire_def)
  from assms(2) have "validate p = validate_document p"
    by (auto simp: is_document_def validate_def)
  then show ?thesis
    by (simp add: validate_document_def getitem_wf [OF assms(1) keys(1)]
        getitem_wf [OF assms(1) keys(2)])
qed

text \<open>
  Claim C7. For a document container (\<^verbatim>\<open>DocumentParameters\<close> or
  \<^verbatim>\<open>RelationshipsParameters\<close>), \<^verbatim>\<open>serialize()\<close> raises \<^verbatim>\<open>badArgument\<close> when neither or
  both of \<^verbatim>\<open>content\<close> and \<^verbatim>\<open>contentUri\<close> are set; otherwise it returns the items whose
  value is not \<^verbatim>\<open>None\<close>, so the result maps a key to its value exactly when that
  value is set.
\<close>

theorem serialize_document:
  assumes "wf_params p" and "is_document p"
  shows "serialize p =
     (if param p ''content'' = PNone \<and> param p ''contentUri'' = PNone then
        Inl (RosetteException (PStr ''badArgument'')
               (PStr ''Must supply one of Content or ContentUri'') (PStr ''bad arguments''))
      else if param p ''content'' \<noteq> PNone \<and> param p ''contentUri'' \<noteq> PNone then
        Inl (RosetteException (PStr ''badArgument'')
               (PStr ''Cannot supply both Content and ContentUri'') (PStr ''bad arguments''))
      else Inr (filter (\<lambda>(k, v). v \<noteq> PNone) (params p)))
   \<and> (\<forall>d key. serialize p = Inr d \<longrightarrow>
          map_of d key = (if param p key = PNone then None else Some (param p key)))"
proof -
  let ?kept = "filter (\<lambda>(k, v). v \<noteq> PNone) (params p)"
  from assms(2) have ser: "serialize p =
      (case validate p of Inl e \<Rightarrow> Inl e | Inr _ \<Rightarrow> base_serialize p)"
    by (auto simp: is_document_def serialize_def)
  have first: "serialize p =
     (if param p ''content'' = PNone \<and> param p ''contentUri'' = PNone then
        Inl (RosetteException (PStr ''badArgument'')
               (PStr ''Must supply one of Content or ContentUri'') (PStr ''bad arguments''))
      else if param p ''content'' \<noteq> PNone \<and> param p ''contentUri'' \<noteq> PNone then
        Inl (RosetteException (PStr ''badArgument'')
               (PStr ''Cannot supply both Content and ContentUri'') (PStr ''bad arguments''))
      else Inr ?kept)"
  proof (cases "validate p")
    case (Inl e)
    with ser validate_document_eq [OF assms] show ?thesis
      by (auto split: if_splits)
  next
    case (Inr u)
    with ser base_serialize_ok [OF assms(1) Inr] validate_document_eq [OF assms]
    show ?thesis by (auto split: if_splits)
  qed
  have "map_of ?kept key = (if param p key = PNone then None else Some (param p key))" for key
    using map_of_filter_set [OF wf_params_distinct [OF assms(1)], of key]
    by (simp add: param_def split: option.splits)
  with first show ?thesis
    by (auto split: if_splits)
qed

lemma wf_new_RelationshipsParameters: "wf_params new_RelationshipsParameters"
  by (simp add: wf_params_def new_RelationshipsParameters_def base_init_keys)

lemma wf_new_NameTranslationParameters: "wf_params new_NameTranslationParameters"
  by (simp add: wf_params_def new_NameTranslationParameters_def base_init_keys)

lemma wf_new_NameSimilarityParameters: "wf_params new_NameSimilarityParameters"
  by (simp add: wf_params_def new_NameSimilarityParameters_def base_init_keys)

lemma wf_doc_with_uri: "wf_params doc_with_uri"
  by (rule wf_setitem [OF wf_new_DocumentParameters, of "''contentUri''" "PStr ''http://example.com/a.html''"])
     (simp add: setitem_def doc_with_uri_def new_DocumentParameters_def repertoire_def base_init_def)

lemma wf_doc_file_and_uri: "wf_params doc_file_and_uri"
  by (simp add: wf_params_def doc_file_and_uri_def repertoire_def)

theorem serialize_document_witness:
  "serialize doc_with_uri = Inr [(''contentUri'', PStr ''http://example.com/a.html'')]
   \<and> serialize new_DocumentParameters =
        Inl (RosetteException (PStr ''badArgument'')
               (PStr ''Must supply one of Content or ContentUri'') (PStr ''bad arguments''))
   \<and> serialize doc_file_and_uri =
        Inl (RosetteException (PStr ''badArgument'')
               (PStr ''Cannot supply both Content and ContentUri'') (PStr ''bad arguments''))"
proof -
  have d1: "is_document doc_with_uri" and d2: "is_document new_DocumentParameters"
    and d3: "is_document doc_file_and_uri"
    by (simp_all add: is_document_def doc_with_uri_def new_DocumentParameters_def
        doc_file_and_uri_def)
  have p1: "params doc_with_uri =
      [(''content'', PNone), (''contentUri'', PStr ''http://example.com/a.html''),
       (''language'', PNone), (''genre'', PNone)]"
    by (simp add: doc_with_uri_def new_DocumentParameters_def repertoire_def base_init_def)
  have p2: "params new_DocumentParameters =
      [(''content'', PNone), (''contentUri'', PNone), (''language'', PNone), (''genre'', PNone)]"
    by (simp add: new_DocumentParameters_def repertoire_def base_init_def)
  have p3: "params doc_file_and_uri =
      [(''content'', PStr ''Bonjour''), (''contentUri'', PStr ''http://example.com/a.html''),
       (''language'', PNone), (''genre'', PNone)]"
    by (simp add: doc_file_and_uri_def)
  show ?thesis
    using serialize_document [OF wf_doc_with_uri d1]
      serialize_document [OF wf_new_DocumentParameters d2]
      serialize_document [OF wf_doc_file_and_uri d3]
    by (simp add: param_def p1 p2 p3)
qed

lemma validate_name_translation_eq:
  assumes "wf_params p" and "klass p = NameTranslationParameters"
  shows "validate p =
     (if param p ''name'' = PNone then
        Inl (RosetteException (PStr ''missingParameter'')
               (PStr ''Required Name Translation parameter not supplied'')
               (PStr (repr_str ''name'')))
      else if param p ''targetLanguage'' = PNone then
        Inl (RosetteException (PStr ''missingParameter'')
               (PStr ''Required Name Translation parameter not supplied'')
               (PStr (repr_str ''targetLanguage'')))
      else Inr ())"
proof -
  from assms(2) have keys: "''name'' \<in> set (repertoire (klass p))"
    "''targetLanguage'' \<in> set (repertoire (klass p))"
    by (simp_all add: repertoire_def)
  from assms(2) show ?thesis
    by (simp add: validate_def getitem_wf [OF assms(1) keys(1)]
        getitem_wf [OF assms(1) keys(2)])
qed

lemma validate_name_similarity_eq:
  assumes "wf_params p" and "klass p = NameSimilarityParameters"
  shows "validate p =
     (if param p ''name1'' = PNone then
        Inl (RosetteException (PStr ''missingParameter'')
               (PStr ''Required Name Similarity parameter not supplied'')
               (PStr (repr_str ''name1'')))
      else if param p ''name2'' = PNone then
        Inl (RosetteException (PStr ''missingParameter'')
               (PStr ''Required Name Similarity parameter not supplied'')
               (PStr (repr_str ''name2'')))
      else Inr ())"
proof -
  from assms(2) have keys: "''name1'' \<in> set (repertoire (klass p))"
    "''name2'' \<in> set (repertoire (klass p))"
    by (simp_all add: repertoire_def)
  from assms(2) show ?thesis
    by (simp add: validate_def getitem_wf [OF assms(1) keys(1)]
        getitem_wf [OF assms(1) keys(2)])
qed

text \<open>
  Claim C8. \<^verbatim>\<open>serialize()\<close> of a name-translation container raises
  \<^verbatim>\<open>missingParameter\<close> with \<^verbatim>\<open>repr\<close> of the first missing required name unless both
  \<^verbatim>\<open>name\<close> and \<^verbatim>\<open>targetLanguage\<close> are set; likewise for a name-similarity container
  with \<^verbatim>\<open>name1\<close> and \<^verbatim>\<open>name2\<close>. With both set it returns the items that are set.
\<close>

theorem serialize_name_parameters:
  assumes "wf_params p"
  shows "(klass p = NameTranslationParameters \<longrightarrow>
      serialize p =
        (if param p ''name'' = PNone then
           Inl (RosetteException (PStr ''missingParameter'')
                  (PStr ''Required Name Translation parameter not supplied'')
                  (PStr (repr_str ''name'')))
         else if param p ''targetLanguage'' = PNone then
           Inl (RosetteException (PStr ''missingParameter'')
                  (PStr ''Required Name Translation parameter not supplied'')
                  (PStr (repr_str ''targetLanguage'')))
         else Inr (filter (\<lambda>(k, v). v \<noteq> PNone) (params p))))
   \<and> (klass p = NameSimilarityParameters \<longrightarrow>
      serialize p =
        (if param p ''name1'' = PNone then
           Inl (RosetteException (PStr ''missingParameter'')
                  (PStr ''Required Name Similarity parameter not supplied'')
                  (PStr (repr_str ''name1'')))
         else if param p ''name2'' = PNone then
           Inl (RosetteException (PStr ''missingParameter'')
                  (PStr ''Required Name Similarity parameter not supplied'')
                  (PStr (repr_str ''name2'')))
         else Inr (filter (\<lambda>(k, v). v \<noteq> PNone) (params p))))"
proof (intro conjI impI)
  assume c: "klass p = NameTranslationParameters"
  then have ser: "serialize p = base_serialize p"
    by (simp add: serialize_def)
  show "serialize p =
        (if param p ''name'' = PNone then
           Inl (RosetteException (PStr ''missingParameter'')
                  (PStr ''Required Name Translation parameter not supplied'')
                  (PStr (repr_str ''name'')))
         else if param p ''targetLanguage'' = PNone then
           Inl (RosetteException (PStr ''missingParameter'')
                  (PStr ''Required Name Translation parameter not supplied'')
                  (PStr (repr_str ''targetLanguage'')))
         else Inr (filter (\<lambda>(k, v). v \<noteq> PNone) (params p)))"
  proof (cases "validate p")
    case (Inl e)
    with ser validate_name_translation_eq [OF assms c] show ?thesis
      by (auto simp: base_serialize_def split: if_splits)
  next
    case (Inr u)
    with ser base_serialize_ok [OF assms Inr] validate_name_translation_eq [OF assms c]
    show ?thesis by (auto split: if_splits)
  qed
next
  assume c: "klass p = NameSimilarityParameters"
  then have ser: "serialize p = base_serialize p"
    by (simp add: serialize_def)
  show "serialize p =
        (if param p ''name1'' = PNone then
           Inl (RosetteException (PStr ''missingParameter'')
                  (PStr ''Required Name Similarity parameter not supplied'')
                  (PStr (repr_str ''name1'')))
         else if param p ''name2'' = PNone then
           Inl (RosetteException (PStr ''missingParameter'')
                  (PStr ''Required Name Similarity parameter not supplied'')
                  (PStr (repr_str ''name2'')))
         else Inr (filter (\<lambda>(k, v). v \<noteq> PNone) (params p)))"
  proof (cases "validate p")
    case (Inl e)
    with ser validate_name_similarity_eq [OF assms c] show ?thesis
      by (auto simp: base_serialize_def split: if_splits)
  next
    case (Inr u)
    with ser base_serialize_ok [OF assms Inr] validate_name_similarity_eq [OF assms c]
    show ?thesis by (auto split: if_splits)
  qed
qed

lemma wf_translation_name_only: "wf_params translation_name_only"
  by (rule wf_setitem [OF wf_new_NameTranslationParameters, of "''name''" "PStr ''Vladimir''"])
     (simp add: setitem_def translation_name_only_def new_NameTranslationParameters_def
        repertoire_def base_init_def)

theorem serialize_name_parameters_witness:
  "serialize translation_name_only =
     Inl (RosetteException (PStr ''missingParameter'')
            (PStr ''Required Name Translation parameter not supplied'')
            (PStr ([CHR 0x27] @ ''targetLanguage'' @ [CHR 0x27])))
   \<and> serialize new_NameSimilarityParameters =
     Inl (RosetteException (PStr ''missingParameter'')
            (PStr ''Required Name Similarity parameter not supplied'')
            (PStr ([CHR 0x27] @ ''name1'' @ [CHR 0x27])))"
proof -
  have p1: "params translation_name_only =
      [(''name'', PStr ''Vladimir''), (''targetLanguage'', PNone), (''entityType'', PNone),
       (''sourceLanguageOfOrigin'', PNone), (''sourceLanguageOfUse'', PNone),
       (''sourceScript'', PNone), (''targetScript'', PNone), (''targetScheme'', PNone),
       (''genre'', PNone)]"
    by (simp add: translation_name_only_def new_NameTranslationParameters_def repertoire_def
        base_init_def)
  have p2: "params new_NameSimilarityParameters = [(''name1'', PNone), (''name2'', PNone)]"
    by (simp add: new_NameSimilarityParameters_def repertoire_def base_init_def)
  have k1: "klass translation_name_only = NameTranslationParameters"
    by (simp add: translation_name_only_def new_NameTranslationParameters_def)
  have k2: "klass new_NameSimilarityParameters = NameSimilarityParameters"
    by (simp add: new_NameSimilarityParameters_def)
  show ?thesis
    using serialize_name_parameters [OF wf_translation_name_only]
      serialize_name_parameters [OF wf_new_NameSimilarityParameters]
    by (simp add: k1 k2 param_def p1 p2 repr_str_def repr_char_def Let_def)
qed

section \<open>Properties of the transport\<close>

lemma connect_fields:
  "reuse_connection (fst (connect api purl w)) = reuse_connection api"
  "connection_refresh_duration (fst (connect api purl w)) = connection_refresh_duration api"
  "num_retries (fst (connect api purl w)) = num_retries api"
  "server (snd (connect api purl w)) = server w"
  "sent (snd (connect api purl w)) = sent w"
  "trace (snd (connect api purl w)) =
     trace w @ (if \<not> reuse_connection api \<or> http_connection api = None
                then [NewConnection (new_connection purl)] else [])"
  "sock_open (snd (connect api purl w)) =
     (if \<not> reuse_connection api \<or> http_connection api = None then False else sock_open w)"
  by (simp_all add: connect_def emit_def)

lemma connect_snd:
  "snd (connect api purl w) =
     w\<lparr>sock_open := reuse_connection api \<and> http_connection api \<noteq> None \<and> sock_open w,
       trace := trace w @
         (if \<not> reuse_connection api \<or> http_connection api = None
          then [NewConnection (new_connection purl)] else [])\<rparr>"
  by (simp add: connect_def emit_def)

lemma connected_connect: "connected (fst (connect api purl w)) purl"
  by (auto simp: connect_def connected_def)

lemma connect_connected:
  "connected api purl \<Longrightarrow> \<not> sock_open w \<Longrightarrow>
   connect api purl w =
     (api, w\<lparr>trace := trace w @
               (if reuse_connection api then [] else [NewConnection (new_connection purl)])\<rparr>)"
  by (cases api) (auto simp: connect_def connected_def emit_def)

lemma loop_step_429:
  assumes "connected api purl" and "server w (sent w) = Response 429 rdata hdrs"
  shows "make_request_loop env rq purl (i # rest) message code api w =
         make_request_loop env rq purl rest (PStr (format_429 env rdata i)) (PInt 429) api
           (w\<lparr>sent := Suc (sent w), sock_open := False,
              trace := trace w @ (if sock_open w then [] else [Open]) @
                       retry_events api rq purl\<rparr>)"
  using assms
  by (simp add: send_request_def emit_def close_connection_def connect_connected
        retry_events_def)

lemma attempts_429_Suc:
  "attempts_429 api rq purl was_open (Suc k) =
     attempts_429 api rq purl was_open k @
     (if k = 0 \<and> was_open then [] else [Open]) @ retry_events api rq purl"
  by (simp add: attempts_429_def)

lemma attempts_429_0: "attempts_429 api rq purl was_open 0 = []"
  by (simp add: attempts_429_def)

lemma loop_429s:
  assumes c: "connected api purl"
  shows "i + k \<le> m \<Longrightarrow>
     (\<forall>j<k. server w (sent w + j) = Response 429 (bs j) (hs j)) \<Longrightarrow>
     make_request_loop env rq purl [i..<m] message code api w =
     make_request_loop env rq purl [i + k..<m]
       (if k = 0 then message else PStr (format_429 env (bs (k - 1)) (i + k - 1)))
       (if k = 0 then code else PInt 429) api
       (w\<lparr>sent := sent w + k, sock_open := (k = 0 \<and> sock_open w),
          trace := trace w @ attempts_429 api rq purl (sock_open w) k\<rparr>)"
proof (induction k)
  case 0
  then show ?case by (simp add: attempts_429_0)
next
  case (Suc k)
  let ?wk = "w\<lparr>sent := sent w + k, sock_open := (k = 0 \<and> sock_open w),
          trace := trace w @ attempts_429 api rq purl (sock_open w) k\<rparr>"
  from Suc.prems have lt: "i + k < m" by simp
  then have idx: "[i + k..<m] = (i + k) # [i + Suc k..<m]"
    by (simp add: upt_conv_Cons)
  from Suc.prems have resp: "server ?wk (sent ?wk) = Response 429 (bs k) (hs k)"
    by simp
  have "make_request_loop env rq purl [i..<m] message code api w =
     make_request_loop env rq purl [i + k..<m]
       (if k = 0 then message else PStr (format_429 env (bs (k - 1)) (i + k - 1)))
       (if k = 0 then code else PInt 429) api ?wk"
    using Suc.IH Suc.prems by simp
  also have "\<dots> = make_request_loop env rq purl [i + Suc k..<m]
       (PStr (format_429 env (bs k) (i + k))) (PInt 429) api
       (?wk\<lparr>sent := Suc (sent ?wk), sock_open := False,
          trace := trace ?wk @ (if sock_open ?wk then [] else [Open]) @
                   retry_events api rq purl\<rparr>)"
    unfolding idx by (rule loop_step_429 [OF c resp])
  finally show ?case
    by (simp add: attempts_429_Suc)
qed

lemma sleeps_append: "sleeps (xs @ ys) = sleeps xs @ sleeps ys"
  by (simp add: sleeps_def)

lemma sleeps_simps:
  "sleeps [] = []"
  "sleeps (NewConnection c # tr) = sleeps tr"
  "sleeps (Open # tr) = sleeps tr"
  "sleeps (Request rq # tr) = sleeps tr"
  "sleeps (Sleep d # tr) = d # sleeps tr"
  "sleeps (Close # tr) = sleeps tr"
  "sleeps (SessionSend mp # tr) = sleeps tr"
  by (simp_all add: sleeps_def)

lemma sleeps_retry_events: "sleeps (retry_events api rq purl) = [connection_refresh_duration api]"
  by (simp add: retry_events_def sleeps_simps)

lemma sleeps_attempts_429:
  "sleeps (attempts_429 api rq purl was_open k) = replicate k (connection_refresh_duration api)"
proof (induction k)
  case 0
  then show ?case by (simp add: attempts_429_0 sleeps_simps)
next
  case (Suc k)
  then show ?case
    by (simp add: attempts_429_Suc sleeps_append sleeps_retry_events sleeps_simps
          replicate_append_same)
qed

lemma sleeps_connect:
  "sleeps (trace (snd (connect api purl w))) = sleeps (trace w)"
  by (simp add: connect_fields sleeps_append sleeps_simps)

lemma str_nat_digit: "n < 10 \<Longrightarrow> str_nat n = [digit_char n]"
  by (simp add: str_nat.simps)

lemma str_nat_1: "str_nat (Suc 0) = ''1''"
  by (simp add: str_nat_digit digit_char_def)

lemma py_range_nonneg: "0 \<le> n \<Longrightarrow> py_range (n + 1) = [0..<Suc (nat n)]"
  by (simp add: py_range_def nat_add_distrib)

lemma make_request_unfold:
  "make_request env api op url data headers w =
     make_request_loop env
       \<lparr>rq_op = op, rq_url = url, rq_data = data,
        rq_headers = AList.update ''User-Agent'' (PStr (''RosetteAPIPython/'' @ BINDING_VERSION))
                       headers\<rparr>
       (urlparse env url) (py_range (num_retries api + 1)) PNone (PStr ''unknownError'')
       (fst (connect api (urlparse env url) w)) (snd (connect api (urlparse env url) w))"
  by (simp add: make_request_def Let_def connect_def split: prod.splits)

lemma retry_events_connect:
  "retry_events (fst (connect api purl w)) rq purl = retry_events api rq purl"
  by (simp add: retry_events_def connect_fields)

lemma attempts_429_connect:
  "attempts_429 (fst (connect api purl w)) rq purl was_open k =
   attempts_429 api rq purl was_open k"
  by (simp add: attempts_429_def retry_events_connect)

lemma make_request_all_429:
  assumes nonneg: "0 \<le> num_retries api"
    and all429: "\<forall>j \<le> nat (num_retries api). server w (sent w + j) = Response 429 (bs j) (hs j)"
  shows "make_request env api op url data headers w =
     (Inl (RosetteException (PInt 429)
             (PStr (format_429 env (bs (nat (num_retries api))) (nat (num_retries api))))
             (PStr url)),
      fst (connect api (urlparse env url) w),
      w\<lparr>sent := sent w + Suc (nat (num_retries api)), sock_open := False,
        trace := trace w @
          (if \<not> reuse_connection api \<or> http_connection api = None
           then [NewConnection (new_connection (urlparse env url))] else []) @
          attempts_429 api
            \<lparr>rq_op = op, rq_url = url, rq_data = data,
             rq_headers = AList.update ''User-Agent''
                            (PStr (''RosetteAPIPython/'' @ BINDING_VERSION)) headers\<rparr>
            (urlparse env url)
            (reuse_connection api \<and> http_connection api \<noteq> None \<and> sock_open w)
            (Suc (nat (num_retries api))) @
          (if reuse_connection api then [] else [Close])\<rparr>)"
proof -
  let ?purl = "urlparse env url"
  let ?api1 = "fst (connect api ?purl w)"
  let ?w1 = "snd (connect api ?purl w)"
  let ?n = "nat (num_retries api)"
  let ?rq = "\<lparr>rq_op = op, rq_url = url, rq_data = data,
        rq_headers = AList.update ''User-Agent'' (PStr (''RosetteAPIPython/'' @ BINDING_VERSION))
                       headers\<rparr>"
  let ?wk = "?w1\<lparr>sent := sent ?w1 + Suc ?n, sock_open := (Suc ?n = 0 \<and> sock_open ?w1),
          trace := trace ?w1 @ attempts_429 ?api1 ?rq ?purl (sock_open ?w1) (Suc ?n)\<rparr>"
  have c: "connected ?api1 ?purl" by (rule connected_connect)
  have resp: "\<forall>j<Suc ?n. server ?w1 (sent ?w1 + j) = Response 429 (bs j) (hs j)"
    using all429 by (simp add: connect_fields less_Suc_eq_le)
  have "make_request env api op url data headers w =
      make_request_loop env ?rq ?purl [0..<Suc ?n] PNone (PStr ''unknownError'') ?api1 ?w1"
    by (simp only: make_request_unfold py_range_nonneg [OF nonneg])
  also have "\<dots> = make_request_loop env ?rq ?purl [0 + Suc ?n..<Suc ?n]
       (if Suc ?n = 0 then PNone
        else PStr (format_429 env (bs (Suc ?n - 1)) (0 + Suc ?n - 1)))
       (if Suc ?n = 0 then PStr ''unknownError'' else PInt 429) ?api1 ?wk"
    by (rule loop_429s [OF c _ resp]) simp
  also have "\<dots> = (Inl (RosetteException (PInt 429) (PStr (format_429 env (bs ?n) ?n))
                         (PStr url)),
       ?api1, if \<not> reuse_connection ?api1 then close_connection ?wk else ?wk)"
    by simp
  finally show ?thesis
    by (simp add: connect_fields(1) connect_snd attempts_429_connect close_connection_def
          emit_def)
qed

text \<open>
  Claim C3. When every one of the \<^verbatim>\<open>num_retries + 1\<close> attempts is answered with status
  429, \<^verbatim>\<open>_make_request\<close> raises \<^verbatim>\<open>RosetteException(code, message, url)\<close> with the code
  429 and the message recorded at the last attempt (its body, rendered by the
  interpreter, followed by the attempt index in parentheses); it has sent
  \<^verbatim>\<open>num_retries + 1\<close> requests and slept after each. Every client built by
  \<^verbatim>\<open>API.__init__\<close> has \<^verbatim>\<open>num_retries\<close> at least 1, and with \<^verbatim>\<open>retries=1\<close> exactly 1.
\<close>

theorem make_request_exhausted:
  assumes "0 \<le> num_retries api"
    and "\<forall>j \<le> nat (num_retries api). server w (sent w + j) = Response 429 (bs j) (hs j)"
  shows "fst (make_request env api op url data headers w) =
           Inl (RosetteException (PInt 429)
                  (PStr ((if is_py3 env then ''b'' @ repr_str (bs (nat (num_retries api)))
                          else bs (nat (num_retries api)))
                         @ '' ('' @ str_nat (nat (num_retries api)) @ '')''))
                  (PStr url))
       \<and> sent (snd (snd (make_request env api op url data headers w))) =
           sent w + nat (num_retries api) + 1
       \<and> sleeps (trace (snd (snd (make_request env api op url data headers w)))) =
           sleeps (trace w) @
           replicate (nat (num_retries api) + 1) (connection_refresh_duration api)
       \<and> 1 \<le> num_retries (API_init key base retries reuse refresh dbg)
       \<and> num_retries (API_init key base 1 reuse refresh dbg) = 1"
proof -
  note eq = make_request_all_429 [OF assms, of env op url data headers]
  have "sleeps (trace (snd (snd (make_request env api op url data headers w)))) =
      sleeps (trace w) @ replicate (Suc (nat (num_retries api))) (connection_refresh_duration api)"
    unfolding eq
    by (simp add: sleeps_append sleeps_attempts_429 sleeps_simps del: replicate_Suc)
  then show ?thesis
    by (simp add: eq format_429_def API_init_def)
qed

theorem make_request_exhausted_witness:
  "fst (make_request sample_env api_retries_1 ''POST'' sample_url (PStr ''{}'') []
          world_all_429) =
     Inl (RosetteException (PInt 429) (PStr ''slow down (1)'') (PStr sample_url))
   \<and> sent (snd (snd (make_request sample_env api_retries_1 ''POST'' sample_url (PStr ''{}'') []
          world_all_429))) = 2
   \<and> sleeps (trace (snd (snd (make_request sample_env api_retries_1 ''POST'' sample_url
          (PStr ''{}'') [] world_all_429)))) = [1 / 2, 1 / 2]"
  using make_request_exhausted [where api = api_retries_1 and w = world_all_429
      and bs = "\<lambda>j. ''slow down''" and hs = "\<lambda>j. []" and env = sample_env
      and op = "''POST''" and url = sample_url and data = "PStr ''{}''" and headers = "[]"]
  by (simp add: api_retries_1_def API_init_def world_all_429_def str_nat_1 sleeps_simps
        sample_env_def)

lemma loop_step_200:
  assumes "server w (sent w) = Response 200 rdata hdrs"
  shows "make_request_loop env rq purl (i # rest) message code api w =
         (Inr (rdata, 200, [(''responseHeaders'', PDict (dict_of_pairs hdrs))]), api,
          w\<lparr>sent := Suc (sent w), sock_open := reuse_connection api,
            trace := trace w @ (if sock_open w then [] else [Open]) @ [Request rq] @
                     (if reuse_connection api then [] else [Close])\<rparr>)"
  using assms by (simp add: send_request_def emit_def close_connection_def)

lemma make_request_429s_then_200:
  assumes k: "int k \<le> num_retries api"
    and r429: "\<forall>j<k. server w (sent w + j) = Response 429 (bs j) (hs j)"
    and r200: "server w (sent w + k) = Response 200 rdata hdrs"
  shows "make_request env api op url data headers w =
     (Inr (rdata, 200, [(''responseHeaders'', PDict (dict_of_pairs hdrs))]),
      fst (connect api (urlparse env url) w),
      w\<lparr>sent := sent w + Suc k, sock_open := reuse_connection api,
        trace := trace w @
          (if \<not> reuse_connection api \<or> http_connection api = None
           then [NewConnection (new_connection (urlparse env url))] else []) @
          attempts_429 api
            \<lparr>rq_op = op, rq_url = url, rq_data = data,
             rq_headers = AList.update ''User-Agent''
                            (PStr (''RosetteAPIPython/'' @ BINDING_VERSION)) headers\<rparr>
            (urlparse env url)
            (reuse_connection api \<and> http_connection api \<noteq> None \<and> sock_open w) k @
          (if k = 0 \<and> reuse_connection api \<and> http_connection api \<noteq> None \<and> sock_open w
           then [] else [Open]) @
          [Request \<lparr>rq_op = op, rq_url = url, rq_data = data,
                rq_headers = AList.update ''User-Agent''
                               (PStr (''RosetteAPIPython/'' @ BINDING_VERSION)) headers\<rparr>] @
          (if reuse_connection api then [] else [Close])\<rparr>)"
proof -
  let ?purl = "urlparse env url"
  let ?api1 = "fst (connect api ?purl w)"
  let ?w1 = "snd (connect api ?purl w)"
  let ?n = "nat (num_retries api)"
  let ?rq = "\<lparr>rq_op = op, rq_url = url, rq_data = data,
        rq_headers = AList.update ''User-Agent'' (PStr (''RosetteAPIPython/'' @ BINDING_VERSION))
                       headers\<rparr>"
  let ?wk = "?w1\<lparr>sent := sent ?w1 + k, sock_open := (k = 0 \<and> sock_open ?w1),
          trace := trace ?w1 @ attempts_429 ?api1 ?rq ?purl (sock_open ?w1) k\<rparr>"
  from k have nonneg: "0 \<le> num_retries api" and kn: "k \<le> ?n" by simp_all
  have c: "connected ?api1 ?purl" by (rule connected_connect)
  have resp: "\<forall>j<k. server ?w1 (sent ?w1 + j) = Response 429 (bs j) (hs j)"
    using r429 by (simp add: connect_fields)
  from kn have idx: "[0 + k..<Suc ?n] = k # [Suc k..<Suc ?n]"
    by (simp add: upt_conv_Cons)
  have r: "server ?wk (sent ?wk) = Response 200 rdata hdrs"
    using r200 by (simp add: connect_fields)
  have "make_request env api op url data headers w =
      make_request_loop env ?rq ?purl [0..<Suc ?n] PNone (PStr ''unknownError'') ?api1 ?w1"
    by (simp only: make_request_unfold py_range_nonneg [OF nonneg])
  also have "\<dots> = make_request_loop env ?rq ?purl [0 + k..<Suc ?n]
       (if k = 0 then PNone else PStr (format_429 env (bs (k - 1)) (0 + k - 1)))
       (if k = 0 then PStr ''unknownError'' else PInt 429) ?api1 ?wk"
    using kn by (intro loop_429s [OF c _ resp]) simp
  also have "\<dots> = (Inr (rdata, 200, [(''responseHeaders'', PDict (dict_of_pairs hdrs))]), ?api1,
          ?wk\<lparr>sent := Suc (sent ?wk), sock_open := reuse_connection ?api1,
            trace := trace ?wk @ (if sock_open ?wk then [] else [Open]) @ [Request ?rq] @
              (if reuse_connection ?api1 then [] else [Close])\<rparr>)"
    unfolding idx by (rule loop_step_200 [OF r])
  finally show ?thesis
    by (simp add: connect_fields(1) connect_snd attempts_429_connect)
qed

lemma connect_closed:
  "\<not> sock_open w \<Longrightarrow>
   connect api purl w =
     (if \<not> reuse_connection api \<or> http_connection api = None
      then api\<lparr>http_connection := Some (new_connection purl)\<rparr> else api,
      w\<lparr>trace := trace w @
          (if \<not> reuse_connection api \<or> http_connection api = None
           then [NewConnection (new_connection purl)] else [])\<rparr>)"
  by (simp add: connect_def emit_def)

lemma loop_step_429_any:
  assumes "server w (sent w) = Response 429 rdata hdrs"
  shows "make_request_loop env rq purl (i # rest) message code api w =
      make_request_loop env rq purl rest (PStr (format_429 env rdata i)) (PInt 429)
        (if \<not> reuse_connection api \<or> http_connection api = None
         then api\<lparr>http_connection := Some (new_connection purl)\<rparr> else api)
        (w\<lparr>sent := Suc (sent w), sock_open := False,
           trace := trace w @ (if sock_open w then [] else [Open]) @
             [Request rq, Sleep (connection_refresh_duration api), Close] @
             (if \<not> reuse_connection api \<or> http_connection api = None
              then [NewConnection (new_connection purl)] else [])\<rparr>)"
  using assms
  by (simp add: send_request_def emit_def close_connection_def connect_closed)

lemma loop_step_other:
  assumes "server w (sent w) = Response status rdata hdrs"
    and "status \<noteq> 200" and "status \<noteq> 429"
  shows "make_request_loop env rq purl (i # rest) message code api w =
     (case my_loads env rdata [(''responseHeaders'', PDict (dict_of_pairs hdrs))] of
        Inl e \<Rightarrow> Inl e
      | Inr the_json \<Rightarrow>
          Inl (RosetteException
                 (case map_of the_json ''code'' of Some c \<Rightarrow> c | None \<Rightarrow> PInt status)
                 (case map_of the_json ''message'' of Some m \<Rightarrow> m | None \<Rightarrow> message)
                 (PStr (rq_url rq))),
      api, w\<lparr>sent := Suc (sent w), sock_open := True,
             trace := trace w @ (if sock_open w then [] else [Open]) @ [Request rq]\<rparr>)"
  using assms
  by (simp add: send_request_def emit_def split: sum.splits)

lemma loop_trace_extends:
  "\<exists>ext. trace (snd (snd (make_request_loop env rq purl idx message code api w))) =
          trace w @ ext"
proof (induction idx arbitrary: message code api w)
  case Nil
  then show ?case by (simp add: emit_def close_connection_def)
next
  case (Cons i rest)
  show ?case
  proof (cases "server w (sent w)")
    case (Response status rdata hdrs)
    consider "status = 200" | "status = 429" | "status \<noteq> 200" "status \<noteq> 429" by blast
    then show ?thesis
    proof cases
      case 1
      with Response have "server w (sent w) = Response 200 rdata hdrs" by simp
      from loop_step_200 [OF this] show ?thesis
        by (simp del: make_request_loop.simps)
    next
      case 2
      let ?api2 = "if \<not> reuse_connection api \<or> http_connection api = None
             then api\<lparr>http_connection := Some (new_connection purl)\<rparr> else api"
      let ?w2 = "w\<lparr>sent := Suc (sent w), sock_open := False,
           trace := trace w @ (if sock_open w then [] else [Open]) @
             [Request rq, Sleep (connection_refresh_duration api), Close] @
             (if \<not> reuse_connection api \<or> http_connection api = None
              then [NewConnection (new_connection purl)] else [])\<rparr>"
      from Cons.IH [of "PStr (format_429 env rdata i)" "PInt 429" ?api2 ?w2]
      obtain ext where "trace (snd (snd (make_request_loop env rq purl rest
            (PStr (format_429 env rdata i)) (PInt 429) ?api2 ?w2))) = trace ?w2 @ ext"
        by blast
      moreover from Response 2 have "server w (sent w) = Response 429 rdata hdrs" by simp
      note loop_step_429_any [OF this]
      ultimately show ?thesis
        by (simp del: make_request_loop.simps)
    next
      case 3
      from loop_step_other [OF Response 3] show ?thesis
        by (simp del: make_request_loop.simps split: sum.splits)
    qed
  next
    case BadStatusLine
    then show ?thesis by (simp add: send_request_def emit_def)
  next
    case gaierror
    then show ?thesis by (simp add: send_request_def emit_def)
  qed
qed

lemma loop_first_request:
  "\<exists>ext. trace (snd (snd (make_request_loop env rq purl (i # rest) message code api w))) =
          trace w @ (if sock_open w then [] else [Open]) @ Request rq # ext"
proof (cases "server w (sent w)")
  case (Response status rdata hdrs)
  consider "status = 200" | "status = 429" | "status \<noteq> 200" "status \<noteq> 429" by blast
  then show ?thesis
  proof cases
    case 1
    with Response have "server w (sent w) = Response 200 rdata hdrs" by simp
    from loop_step_200 [OF this] show ?thesis
      by (simp del: make_request_loop.simps)
  next
    case 2
    let ?api2 = "if \<not> reuse_connection api \<or> http_connection api = None
           then api\<lparr>http_connection := Some (new_connection purl)\<rparr> else api"
    let ?w2 = "w\<lparr>sent := Suc (sent w), sock_open := False,
         trace := trace w @ (if sock_open w then [] else [Open]) @
           [Request rq, Sleep (connection_refresh_duration api), Close] @
           (if \<not> reuse_connection api \<or> http_connection api = None
            then [NewConnection (new_connection purl)] else [])\<rparr>"
    from loop_trace_extends [of env rq purl rest "PStr (format_429 env rdata i)" "PInt 429"
        ?api2 ?w2]
    obtain ext where "trace (snd (snd (make_request_loop env rq purl rest
          (PStr (format_429 env rdata i)) (PInt 429) ?api2 ?w2))) = trace ?w2 @ ext"
      by blast
    moreover from Response 2 have "server w (sent w) = Response 429 rdata hdrs" by simp
    note loop_step_429_any [OF this]
    ultimately show ?thesis
      by (simp del: make_request_loop.simps)
  next
    case 3
    from loop_step_other [OF Response 3] show ?thesis
      by (simp del: make_request_loop.simps split: sum.splits)
  qed
next
  case BadStatusLine
  then show ?thesis by (simp add: send_request_def emit_def)
next
  case gaierror
  then show ?thesis by (simp add: send_request_def emit_def)
qed






text \<open>
  A status other than 200 and 429 with a body that parses to a JSON object ends the call
  at once: one request, no sleep, and \<^verbatim>\<open>RosetteException(code, message, url)\<close> with
  the body's \<^verbatim>\<open>code\<close> (the status when absent) and \<^verbatim>\<open>message\<close> (\<^verbatim>\<open>None\<close> when absent
  at the first attempt).
\<close>

lemma make_request_error_status:
  assumes "0 \<le> num_retries api"
    and "server w (sent w) = Response status rdata hdrs"
    and "status \<noteq> 200" and "status \<noteq> 429"
    and "json_loads env rdata = Some (PDict d)"
  shows "fst (make_request env api op url data headers w) =
           Inl (RosetteException
                  (case map_of d ''code'' of Some c \<Rightarrow> c | None \<Rightarrow> PInt status)
                  (case map_of d ''message'' of Some m \<Rightarrow> m | None \<Rightarrow> PNone)
                  (PStr url))
       \<and> sent (snd (snd (make_request env api op url data headers w))) = Suc (sent w)
       \<and> sleeps (trace (snd (snd (make_request env api op url data headers w)))) =
           sleeps (trace w)"
proof -
  let ?purl = "urlparse env url"
  let ?w1 = "snd (connect api ?purl w)"
  have r: "server ?w1 (sent ?w1) = Response status rdata hdrs"
    using assms(2) by (simp add: connect_fields)
  have idx: "[0..<Suc (nat (num_retries api))] = 0 # [1..<Suc (nat (num_retries api))]"
    by (simp add: upt_conv_Cons)
  have m: "map_of (dict_update d [(''responseHeaders'', v)]) key =
      (if key = ''responseHeaders'' then Some v else map_of d key)" for v key
    by (simp add: dict_update_def update_conv')
  show ?thesis
    unfolding make_request_unfold py_range_nonneg [OF assms(1)] idx
      loop_step_other [OF r assms(3) assms(4)]
    using assms(5)
    by (simp add: my_loads_def m sleeps_append sleeps_simps sleeps_connect connect_fields)
qed

text \<open>
  Claim C2 at a body that is not JSON. The server answers 500 with the text
  \<^verbatim>\<open>Internal Server Error\<close>: \<^verbatim>\<open>json.loads\<close> raises \<^verbatim>\<open>ValueError\<close> inside \<^verbatim>\<open>_my_loads\<close>,
  the handler of lines 571-572 raises it again, and \<^verbatim>\<open>_make_request\<close> ends with that
  \<^verbatim>\<open>ValueError\<close> instead of a \<^verbatim>\<open>RosetteException\<close> carrying code, message and URL.
\<close>

theorem make_request_non_json_error_body:
  "fst (make_request sample_env api_default ''POST'' sample_url (PStr ''{}'') []
          (world_always (Response 500 ''Internal Server Error'' []))) = Inl ValueError"
proof -
  let ?w = "world_always (Response 500 ''Internal Server Error'' [])"
  let ?w1 = "snd (connect api_default (urlparse sample_env sample_url) ?w)"
  have n: "0 \<le> num_retries api_default"
    by (simp add: api_default_def API_init_def)
  have r: "server ?w1 (sent ?w1) = Response 500 ''Internal Server Error'' []"
    by (simp add: connect_fields world_always_def)
  have idx: "[0..<Suc (nat (num_retries api_default))] =
      0 # [1..<Suc (nat (num_retries api_default))]"
    by (simp add: upt_conv_Cons)
  have l: "json_loads sample_env ''Internal Server Error'' = None"
    by (simp add: sample_env_def json_ok_true_def)
  show ?thesis
    unfolding make_request_unfold py_range_nonneg [OF n] idx
    by (subst loop_step_other [OF r]) (simp_all add: my_loads_def l)
qed

lemma post_http_dumps_error:
  "data \<noteq> PNone \<Longrightarrow> json_dumps env data = Inl e \<Longrightarrow>
   post_http env api url data headers w = (Inl e, api, w)"
  by (simp add: post_http_def)

lemma post_http_world:
  "(if data = PNone then Inr '''' else json_dumps env data) = Inr json_data \<Longrightarrow>
   snd (snd (post_http env api url data headers w)) =
   snd (snd (make_request env api ''POST'' url (PStr json_data) headers w))"
  by (simp add: post_http_def split: prod.splits sum.splits option.splits)

lemma post_http_first_request:
  assumes "0 \<le> num_retries api"
    and "(if data = PNone then Inr '''' else json_dumps env data) = Inr json_data"
  shows "\<exists>ext. trace (snd (snd (post_http env api url data headers w))) =
     trace w @
     (if \<not> reuse_connection api \<or> http_connection api = None
      then [NewConnection (new_connection (urlparse env url))] else []) @
     (if reuse_connection api \<and> http_connection api \<noteq> None \<and> sock_open w
      then [] else [Open]) @
     Request \<lparr>rq_op = ''POST'', rq_url = url, rq_data = PStr json_data,
              rq_headers = AList.update ''User-Agent''
                             (PStr (''RosetteAPIPython/'' @ BINDING_VERSION)) headers\<rparr> # ext"
proof -
  have idx: "[0..<Suc (nat (num_retries api))] = 0 # [1..<Suc (nat (num_retries api))]"
    by (simp add: upt_conv_Cons)
  show ?thesis
    unfolding post_http_world [OF assms(2)] make_request_unfold py_range_nonneg [OF assms(1)] idx
    using loop_first_request
      [of env "\<lparr>rq_op = ''POST'', rq_url = url, rq_data = PStr json_data,
              rq_headers = AList.update ''User-Agent''
                             (PStr (''RosetteAPIPython/'' @ BINDING_VERSION)) headers\<rparr>"
        "urlparse env url" 0 "[1..<Suc (nat (num_retries api))]" PNone "PStr ''unknownError''"
        "fst (connect api (urlparse env url) w)" "snd (connect api (urlparse env url) w)"]
    by (auto simp add: connect_fields simp del: make_request_loop.simps)
qed

lemma post_http_200:
  assumes "int k \<le> num_retries api"
    and "(if data = PNone then Inr '''' else json_dumps env data) = Inr json_data"
    and "\<forall>j<k. server w (sent w + j) = Response 429 (bs j) (hs j)"
    and "server w (sent w + k) = Response 200 rdata hdrs"
  shows "fst (post_http env api url data headers w) =
     (case (if length rdata > 3 \<and> take 3 rdata = GZIP_SIGNATURE then gunzip env rdata
            else Some rdata) of
        None \<Rightarrow> Inl IOError
      | Some raw \<Rightarrow>
          (case my_loads env raw [(''responseHeaders'', PDict (dict_of_pairs hdrs))] of
             Inl e \<Rightarrow> Inl e
           | Inr js \<Rightarrow> Inr \<lparr>r_json = js, status_code = 200\<rparr>))"
proof -
  note eq = make_request_429s_then_200 [OF assms(1) assms(3) assms(4)]
  from assms(2) show ?thesis
    by (simp add: post_http_def eq split: option.splits sum.splits)
qed

lemma requests_append: "requests_of (xs @ ys) = requests_of xs @ requests_of ys"
  by (simp add: requests_of_def)

lemma requests_simps:
  "requests_of [] = []"
  "requests_of (NewConnection c # tr) = requests_of tr"
  "requests_of (Open # tr) = requests_of tr"
  "requests_of (Request rq # tr) = rq # requests_of tr"
  "requests_of (Sleep d # tr) = requests_of tr"
  "requests_of (Close # tr) = requests_of tr"
  "requests_of (SessionSend mp # tr) = requests_of tr"
  by (simp_all add: requests_of_def)

lemma replicate_snoc_diff:
  "Suc a \<le> b \<Longrightarrow> x # replicate (b - Suc a) x = replicate (b - a) x"
  by (simp add: Suc_diff_Suc flip: replicate_Suc)

lemma loop_requests:
  "sent w \<le> sent (snd (snd (make_request_loop env rq purl idx message code api w)))
   \<and> requests_of (trace (snd (snd (make_request_loop env rq purl idx message code api w)))) =
       requests_of (trace w) @
       replicate (sent (snd (snd (make_request_loop env rq purl idx message code api w)))
                  - sent w) rq"
proof (induction idx arbitrary: message code api w)
  case Nil
  then show ?case
    by (simp add: emit_def close_connection_def requests_append requests_simps)
next
  case (Cons i rest)
  show ?case
  proof (cases "server w (sent w)")
    case (Response status rdata hdrs)
    consider "status = 200" | "status = 429" | "status \<noteq> 200" "status \<noteq> 429" by blast
    then show ?thesis
    proof cases
      case 1
      with Response have "server w (sent w) = Response 200 rdata hdrs" by simp
      from loop_step_200 [OF this] show ?thesis
        by (simp add: requests_append requests_simps del: make_request_loop.simps)
    next
      case 2
      let ?api2 = "if \<not> reuse_connection api \<or> http_connection api = None
             then api\<lparr>http_connection := Some (new_connection purl)\<rparr> else api"
      let ?w2 = "w\<lparr>sent := Suc (sent w), sock_open := False,
           trace := trace w @ (if sock_open w then [] else [Open]) @
             [Request rq, Sleep (connection_refresh_duration api), Close] @
             (if \<not> reuse_connection api \<or> http_connection api = None
              then [NewConnection (new_connection purl)] else [])\<rparr>"
      let ?f = "snd (snd (make_request_loop env rq purl rest
            (PStr (format_429 env rdata i)) (PInt 429) ?api2 ?w2))"
      from Cons.IH [where message = "PStr (format_429 env rdata i)" and code = "PInt 429"
          and api = ?api2 and w = ?w2]
      have le: "Suc (sent w) \<le> sent ?f"
        and rq: "requests_of (trace ?f) =
          requests_of (trace ?w2) @ replicate (sent ?f - Suc (sent w)) rq"
        by simp_all
      have w2: "requests_of (trace ?w2) = requests_of (trace w) @ [rq]"
        by (simp add: requests_append requests_simps)
      from Response 2 have "server w (sent w) = Response 429 rdata hdrs" by simp
      note step = loop_step_429_any [OF this, of env rq purl i rest message code api]
      from le have "sent w \<le> sent ?f" by simp
      moreover have "requests_of (trace ?f) =
          requests_of (trace w) @ replicate (sent ?f - sent w) rq"
        unfolding rq w2 using replicate_snoc_diff [OF le, of rq] by simp
      ultimately show ?thesis
        unfolding step by blast
    next
      case 3
      from loop_step_other [OF Response 3] show ?thesis
        by (simp add: requests_append requests_simps del: make_request_loop.simps
              split: sum.splits)
    qed
  next
    case BadStatusLine
    then show ?thesis
      by (simp add: send_request_def emit_def requests_append requests_simps)
  next
    case gaierror
    then show ?thesis
      by (simp add: send_request_def emit_def requests_append requests_simps)
  qed
qed

lemma requests_connect:
  "requests_of (trace (snd (connect api purl w))) = requests_of (trace w)"
  by (simp add: connect_fields requests_append requests_simps)

lemma make_request_requests:
  "requests_of (trace (snd (snd (make_request env api op url data headers w)))) =
     requests_of (trace w) @
     replicate (sent (snd (snd (make_request env api op url data headers w))) - sent w)
       \<lparr>rq_op = op, rq_url = url, rq_data = data,
        rq_headers = AList.update ''User-Agent''
                       (PStr (''RosetteAPIPython/'' @ BINDING_VERSION)) headers\<rparr>"
proof -
  let ?rq = "\<lparr>rq_op = op, rq_url = url, rq_data = data,
        rq_headers = AList.update ''User-Agent''
                       (PStr (''RosetteAPIPython/'' @ BINDING_VERSION)) headers\<rparr>"
  let ?w1 = "snd (connect api (urlparse env url) w)"
  let ?f = "snd (snd (make_request_loop env ?rq (urlparse env url)
        (py_range (num_retries api + 1)) PNone (PStr ''unknownError'')
        (fst (connect api (urlparse env url) w)) ?w1))"
  from loop_requests [where w = ?w1 and env = env and rq = ?rq and purl = "urlparse env url"
      and idx = "py_range (num_retries api + 1)" and message = PNone
      and code = "PStr ''unknownError''" and api = "fst (connect api (urlparse env url) w)"]
  have "requests_of (trace ?f) = requests_of (trace ?w1) @ replicate (sent ?f - sent ?w1) ?rq"
    by blast
  then have "requests_of (trace ?f) = requests_of (trace w) @ replicate (sent ?f - sent w) ?rq"
    by (simp only: requests_connect connect_fields(5))
  then show ?thesis
    by (simp only: make_request_unfold)
qed
lemma post_http_requests:
  assumes "(if data = PNone then Inr '''' else json_dumps env data) = Inr json_data"
  shows "requests_of (trace (snd (snd (post_http env api url data headers w)))) =
     requests_of (trace w) @
     replicate (sent (snd (snd (post_http env api url data headers w))) - sent w)
       \<lparr>rq_op = ''POST'', rq_url = url, rq_data = PStr json_data,
        rq_headers = AList.update ''User-Agent''
                       (PStr (''RosetteAPIPython/'' @ BINDING_VERSION)) headers\<rparr>"
  unfolding post_http_world [OF assms] by (rule make_request_requests)

text \<open>
  Claim C4, as the code has it. \<^verbatim>\<open>_post_http\<close> encodes a body other than \<^verbatim>\<open>None\<close> with
  \<^verbatim>\<open>json.dumps\<close> before anything is sent: when \<^verbatim>\<open>json.dumps\<close> raises, the call ends
  with that error and nothing is sent; otherwise every request that is
  sent, the first one and each retry, carries the encoded text, the empty string for
  \<^verbatim>\<open>None\<close>. When a response with status 200 arrives, at the first
  attempt or after any number of attempts answered with 429, a body of more than three
  bytes that begins with the gzip signature is inflated before it is parsed, any other
  body is parsed as it is, and a JSON object comes back with the entry
  \<^verbatim>\<open>responseHeaders\<close> added.
\<close>

theorem post_http_gzip:
  "(data \<noteq> PNone \<and> json_dumps env data = Inl e \<longrightarrow>
      post_http env api url data headers w = (Inl e, api, w))
   \<and> (0 \<le> num_retries api \<and>
      (if data = PNone then Inr '''' else json_dumps env data) = Inr json_data \<longrightarrow>
      (\<exists>ext. trace (snd (snd (post_http env api url data headers w))) =
           trace w @
           (if \<not> reuse_connection api \<or> http_connection api = None
            then [NewConnection (new_connection (urlparse env url))] else []) @
           (if reuse_connection api \<and> http_connection api \<noteq> None \<and> sock_open w
            then [] else [Open]) @
           Request \<lparr>rq_op = ''POST'', rq_url = url, rq_data = PStr json_data,
                    rq_headers = AList.update ''User-Agent''
                                   (PStr (''RosetteAPIPython/'' @ BINDING_VERSION)) headers\<rparr>
             # ext))
   \<and> ((if data = PNone then Inr '''' else json_dumps env data) = Inr json_data \<longrightarrow>
      requests_of (trace (snd (snd (post_http env api url data headers w)))) =
        requests_of (trace w) @
        replicate (sent (snd (snd (post_http env api url data headers w))) - sent w)
          \<lparr>rq_op = ''POST'', rq_url = url, rq_data = PStr json_data,
           rq_headers = AList.update ''User-Agent''
                          (PStr (''RosetteAPIPython/'' @ BINDING_VERSION)) headers\<rparr>)
   \<and> (int k \<le> num_retries api \<and>
      (if data = PNone then Inr '''' else json_dumps env data) = Inr json_data \<and>
      (\<forall>j<k. server w (sent w + j) = Response 429 (bs j) (hs j)) \<and>
      server w (sent w + k) = Response 200 rdata hdrs \<longrightarrow>
        fst (post_http env api url data headers w) =
          (case (if 3 < length rdata \<and> take 3 rdata = GZIP_SIGNATURE
                 then gunzip env rdata else Some rdata) of
             None \<Rightarrow> Inl IOError
           | Some raw \<Rightarrow>
               (case json_loads env raw of
                  None \<Rightarrow> Inl ValueError
                | Some (PDict d) \<Rightarrow>
                    Inr \<lparr>r_json = AList.update ''responseHeaders''
                                     (PDict (dict_of_pairs hdrs)) d,
                         status_code = 200\<rparr>
                | Some (PList xs) \<Rightarrow>
                    Inl (AttributeError (if is_py3 env then ''update'' else ''copy''))
                | Some _ \<Rightarrow> Inl (AttributeError ''copy''))))"
proof (intro conjI impI)
  assume "data \<noteq> PNone \<and> json_dumps env data = Inl e"
  then show "post_http env api url data headers w = (Inl e, api, w)"
    by (simp add: post_http_dumps_error)
next
  assume "0 \<le> num_retries api \<and>
      (if data = PNone then Inr '''' else json_dumps env data) = Inr json_data"
  then have n: "0 \<le> num_retries api"
    and d: "(if data = PNone then Inr '''' else json_dumps env data) = Inr json_data"
    by simp_all
  show "\<exists>ext. trace (snd (snd (post_http env api url data headers w))) =
           trace w @
           (if \<not> reuse_connection api \<or> http_connection api = None
            then [NewConnection (new_connection (urlparse env url))] else []) @
           (if reuse_connection api \<and> http_connection api \<noteq> None \<and> sock_open w
            then [] else [Open]) @
           Request \<lparr>rq_op = ''POST'', rq_url = url, rq_data = PStr json_data,
                    rq_headers = AList.update ''User-Agent''
                                   (PStr (''RosetteAPIPython/'' @ BINDING_VERSION)) headers\<rparr>
             # ext"
    by (rule post_http_first_request [OF n d])
next
  assume "(if data = PNone then Inr '''' else json_dumps env data) = Inr json_data"
  then show "requests_of (trace (snd (snd (post_http env api url data headers w)))) =
        requests_of (trace w) @
        replicate (sent (snd (snd (post_http env api url data headers w))) - sent w)
          \<lparr>rq_op = ''POST'', rq_url = url, rq_data = PStr json_data,
           rq_headers = AList.update ''User-Agent''
                          (PStr (''RosetteAPIPython/'' @ BINDING_VERSION)) headers\<rparr>"
    by (rule post_http_requests)
next
  assume a: "int k \<le> num_retries api \<and>
      (if data = PNone then Inr '''' else json_dumps env data) = Inr json_data \<and>
      (\<forall>j<k. server w (sent w + j) = Response 429 (bs j) (hs j)) \<and>
      server w (sent w + k) = Response 200 rdata hdrs"
  then have k: "int k \<le> num_retries api"
    and d: "(if data = PNone then Inr '''' else json_dumps env data) = Inr json_data"
    and r429: "\<forall>j<k. server w (sent w + j) = Response 429 (bs j) (hs j)"
    and r200: "server w (sent w + k) = Response 200 rdata hdrs"
    by simp_all
  show "fst (post_http env api url data headers w) =
          (case (if 3 < length rdata \<and> take 3 rdata = GZIP_SIGNATURE
                 then gunzip env rdata else Some rdata) of
             None \<Rightarrow> Inl IOError
           | Some raw \<Rightarrow>
               (case json_loads env raw of
                  None \<Rightarrow> Inl ValueError
                | Some (PDict d) \<Rightarrow>
                    Inr \<lparr>r_json = AList.update ''responseHeaders''
                                     (PDict (dict_of_pairs hdrs)) d,
                         status_code = 200\<rparr>
                | Some (PList xs) \<Rightarrow>
                    Inl (AttributeError (if is_py3 env then ''update'' else ''copy''))
                | Some _ \<Rightarrow> Inl (AttributeError ''copy'')))"
    unfolding post_http_200 [OF k d r429 r200]
    by (simp add: my_loads_def dict_update_def split: option.splits pyval.splits)
qed

lemma length_gzip_ok_true: "length gzip_ok_true = 31"
  by (simp add: gzip_ok_true_def)

lemma take_gzip_ok_true: "take 3 gzip_ok_true = GZIP_SIGNATURE"
  by (simp add: gzip_ok_true_def GZIP_SIGNATURE_def)

theorem post_http_gzip_witness:
  "post_http sample_env api_default sample_url (PList []) []
          (world_429_then (Response 200 gzip_ok_true [(''content-encoding'', ''gzip'')])) =
     (Inl TypeError, api_default,
      world_429_then (Response 200 gzip_ok_true [(''content-encoding'', ''gzip'')]))
   \<and> fst (post_http sample_env api_default sample_url
            (PDict [(''content'', PStr ''Bonjour'')]) []
            (world_429_then (Response 200 gzip_ok_true [(''content-encoding'', ''gzip'')]))) =
     Inr \<lparr>r_json = [(''ok'', PBool True),
                     (''responseHeaders'', PDict [(''content-encoding'', PStr ''gzip'')])],
          status_code = 200\<rparr>
   \<and> (\<exists>ext. trace (snd (snd (post_http sample_env api_default sample_url
            (PDict [(''content'', PStr ''Bonjour'')]) []
            (world_429_then (Response 200 gzip_ok_true [(''content-encoding'', ''gzip'')]))))) =
        [NewConnection (HTTPSConnection ''api.rosette.com''),
         Open,
         Request \<lparr>rq_op = ''POST'', rq_url = sample_url,
                  rq_data = PStr (''{'' @ [CHR 0x22] @ ''content'' @ [CHR 0x22] @ '': '' @
                                  [CHR 0x22] @ ''Bonjour'' @ [CHR 0x22] @ ''}''),
                  rq_headers = [(''User-Agent'', PStr ''RosetteAPIPython/1.1'')]\<rparr>] @ ext)
   \<and> requests_of (trace (snd (snd (post_http sample_env api_default sample_url
            (PDict [(''content'', PStr ''Bonjour'')]) []
            (world_429_then (Response 200 gzip_ok_true [(''content-encoding'', ''gzip'')])))))) =
        [\<lparr>rq_op = ''POST'', rq_url = sample_url,
          rq_data = PStr (''{'' @ [CHR 0x22] @ ''content'' @ [CHR 0x22] @ '': '' @
                          [CHR 0x22] @ ''Bonjour'' @ [CHR 0x22] @ ''}''),
          rq_headers = [(''User-Agent'', PStr ''RosetteAPIPython/1.1'')]\<rparr>,
         \<lparr>rq_op = ''POST'', rq_url = sample_url,
          rq_data = PStr (''{'' @ [CHR 0x22] @ ''content'' @ [CHR 0x22] @ '': '' @
                          [CHR 0x22] @ ''Bonjour'' @ [CHR 0x22] @ ''}''),
          rq_headers = [(''User-Agent'', PStr ''RosetteAPIPython/1.1'')]\<rparr>]"
proof -
  let ?w = "world_429_then (Response 200 gzip_ok_true [(''content-encoding'', ''gzip'')])"
  let ?D = "PDict [(''content'', PStr ''Bonjour'')]"
  let ?jd = "''{'' @ [CHR 0x22] @ ''content'' @ [CHR 0x22] @ '': '' @
             [CHR 0x22] @ ''Bonjour'' @ [CHR 0x22] @ ''}''"
  have k1: "int 1 \<le> num_retries api_default"
    by (simp add: api_default_def API_init_def)
  have dd: "(if ?D = PNone then Inr '''' else json_dumps sample_env ?D) = Inr ?jd"
    by (simp add: sample_env_def)
  have r429: "\<forall>j<1. server ?w (sent ?w + j) = Response 429 ''slow down'' []"
    by (simp add: world_429_then_def)
  have r200: "server ?w (sent ?w + 1) =
      Response 200 gzip_ok_true [(''content-encoding'', ''gzip'')]"
    by (simp add: world_429_then_def)
  have sn: "sent (snd (snd (post_http sample_env api_default sample_url ?D [] ?w))) =
      Suc (Suc 0)"
    unfolding post_http_world [OF dd]
      make_request_429s_then_200 [OF k1 r429 r200, of sample_env "''POST''" sample_url
        "PStr ?jd" "[]"]
    by (simp add: world_429_then_def)
  have n: "0 \<le> num_retries api_default" "1 \<le> num_retries api_default"
    by (simp_all add: api_default_def API_init_def)
  have g: "gunzip sample_env gzip_ok_true = Some json_ok_true"
    and j: "json_loads sample_env json_ok_true = Some (PDict [(''ok'', PBool True)])"
    by (simp_all add: sample_env_def)
  have u: "urlparse sample_env sample_url = (''https'', ''api.rosette.com'')"
    by (simp add: sample_env_def sample_url_def)
  have a: "reuse_connection api_default" "http_connection api_default = None"
    by (simp_all add: api_default_def API_init_def)
  have d: "json_dumps sample_env (PList []) = Inl TypeError"
    "json_dumps sample_env (PDict [(''content'', PStr ''Bonjour'')]) =
       Inr (''{'' @ [CHR 0x22] @ ''content'' @ [CHR 0x22] @ '': '' @
            [CHR 0x22] @ ''Bonjour'' @ [CHR 0x22] @ ''}'')"
    by (simp_all add: sample_env_def)
  have s: "server ?w 0 = Response 429 ''slow down'' []"
    "server ?w (Suc 0) = Response 200 gzip_ok_true [(''content-encoding'', ''gzip'')]"
    "sent ?w = 0" "trace ?w = []"
    by (simp_all add: world_429_then_def)
  from post_http_gzip [where data = "PList []" and env = sample_env and e = TypeError
      and api = api_default and url = sample_url and headers = "[]" and w = ?w]
    post_http_gzip [where data = "PDict [(''content'', PStr ''Bonjour'')]" and env = sample_env
      and api = api_default and url = sample_url and headers = "[]" and w = ?w and k = 1
      and json_data = "''{'' @ [CHR 0x22] @ ''content'' @ [CHR 0x22] @ '': '' @
            [CHR 0x22] @ ''Bonjour'' @ [CHR 0x22] @ ''}''"
      and bs = "\<lambda>j. ''slow down''" and hs = "\<lambda>j. []" and rdata = gzip_ok_true
      and hdrs = "[(''content-encoding'', ''gzip'')]"]
  show ?thesis
    by (simp add: length_gzip_ok_true take_gzip_ok_true g j u a n d s sn requests_simps
          new_connection_def dict_of_pairs_def BINDING_VERSION_def)
qed

text \<open>
  A 200 response whose body is the bare three-byte signature begins with the signature
  but is not longer than three bytes: line 611 skips the inflation, the parse of the raw
  bytes raises \<^verbatim>\<open>ValueError\<close>, whereas inflating first would have failed in gzip.
\<close>

theorem post_http_bare_signature_counterexample:
  "take 3 GZIP_SIGNATURE = GZIP_SIGNATURE
   \<and> fst (post_http sample_env api_default sample_url PNone []
            (world_always (Response 200 GZIP_SIGNATURE []))) = Inl ValueError
   \<and> decode_as_specified sample_env GZIP_SIGNATURE [(''responseHeaders'', PDict [])] =
       Inl IOError"
proof -
  let ?w = "world_always (Response 200 GZIP_SIGNATURE [])"
  have n: "int 0 \<le> num_retries api_default"
    by (simp add: api_default_def API_init_def)
  have d: "(if PNone = PNone then Inr '''' else json_dumps sample_env PNone) = Inr ''''"
    by simp
  have r429: "\<forall>j<0. server ?w (sent ?w + j) = Response 429 '''' []"
    by simp
  have r: "server ?w (sent ?w + 0) = Response 200 GZIP_SIGNATURE []"
    by (simp add: world_always_def)
  have l: "json_loads sample_env GZIP_SIGNATURE = None"
    by (simp add: sample_env_def GZIP_SIGNATURE_def json_ok_true_def)
  have g: "gunzip sample_env GZIP_SIGNATURE = None"
    by (simp add: sample_env_def GZIP_SIGNATURE_def gzip_ok_true_def)
  have len: "length GZIP_SIGNATURE = 3"
    by (simp add: GZIP_SIGNATURE_def)
  from post_http_200 [OF n d r429 r, of sample_url "[]"]
  show ?thesis
    by (simp add: len my_loads_def l g decode_as_specified_def)
qed

section \<open>Properties of the endpoint caller\<close>

text \<open>
  Claim C10. When the status is not 200 and the parsed body has neither a \<^verbatim>\<open>message\<close>
  nor a \<^verbatim>\<open>code\<close> key, \<^verbatim>\<open>__finish_result\<close> ends with the \<^verbatim>\<open>KeyError\<close> of the lookup
  \<^verbatim>\<open>the_json['code']\<close>, not with a \<^verbatim>\<open>RosetteException\<close>.
\<close>

theorem finish_result_key_error:
  assumes "status_code r \<noteq> 200"
    and "map_of (r_json r) ''message'' = None"
    and "map_of (r_json r) ''code'' = None"
  shows "finish_result ec r ename = Inl (KeyError ''code'')"
  using assms by (simp add: finish_result_def)

theorem finish_result_key_error_witness:
  "finish_result ec_entities
     \<lparr>r_json = [(''responseHeaders'', PDict [])], status_code = 500\<rparr> ''operate'' =
   Inl (KeyError ''code'')"
  using finish_result_key_error
    [of "\<lparr>r_json = [(''responseHeaders'', PDict [])], status_code = 500\<rparr>" ec_entities
      "''operate''"]
  by simp

lemma wrap_plain:
  "setitem new_DocumentParameters ''content'' arg =
     Inr \<lparr>klass = DocumentParameters,
          params = [(''content'', arg), (''contentUri'', PNone),
                    (''language'', PNone), (''genre'', PNone)],
          file_name = Some '''', useMultipart = False\<rparr>"
  by (simp add: setitem_def new_DocumentParameters_def repertoire_def base_init_def)

lemma serialize_wrapped:
  "arg \<noteq> PNone \<Longrightarrow>
   serialize \<lparr>klass = DocumentParameters,
              params = [(''content'', arg), (''contentUri'', PNone),
                        (''language'', PNone), (''genre'', PNone)],
              file_name = Some '''', useMultipart = False\<rparr> =
     Inr [(''content'', arg)]"
  by (simp add: serialize_def validate_def validate_document_def getitem_def
        base_serialize_def)

lemma post_http_snd:
  "(if data = PNone then Inr '''' else json_dumps env data) = Inr json_data \<Longrightarrow>
   snd (post_http env api url data headers w) =
   snd (make_request env api ''POST'' url (PStr json_data) headers w)"
  by (simp add: post_http_def split: prod.splits sum.splits option.splits)

text \<open>
  Claim C6. \<^verbatim>\<open>call\<close> on a value that is not a container. Unless the sub-path is
  \<^verbatim>\<open>name-similarity\<close> or \<^verbatim>\<open>name-translation\<close>, lines 432-472 run on a fresh
  \<^verbatim>\<open>DocumentParameters\<close> whose \<^verbatim>\<open>content\<close> is that value and whose other keys are unset;
  that container serializes to the dictionary with the single key \<^verbatim>\<open>content\<close>, and the
  call posts this dictionary to the endpoint's URL through \<^verbatim>\<open>_post_http\<close> and hands the
  response to \<^verbatim>\<open>__finish_result\<close>. For the two name sub-paths the call raises
  \<^verbatim>\<open>RosetteException("incompatible", ...)\<close> whose third field is the sub-path, and
  nothing is sent.
\<close>

theorem call_plain_text:
  "(suburl ec \<noteq> Some ''name-similarity'' \<and> suburl ec \<noteq> Some ''name-translation'' \<longrightarrow>
      call env ec (Plain arg) w =
        call_container env ec
          \<lparr>klass = DocumentParameters,
           params = [(''content'', arg), (''contentUri'', PNone),
                     (''language'', PNone), (''genre'', PNone)],
           file_name = Some '''', useMultipart = False\<rparr> w)
   \<and> (arg \<noteq> PNone \<longrightarrow>
      serialize \<lparr>klass = DocumentParameters,
                 params = [(''content'', arg), (''contentUri'', PNone),
                           (''language'', PNone), (''genre'', PNone)],
                 file_name = Some '''', useMultipart = False\<rparr> =
        Inr [(''content'', arg)])
   \<and> (suburl ec = Some sub \<and> sub \<noteq> ''name-similarity'' \<and> sub \<noteq> ''name-translation'' \<and>
      arg \<noteq> PNone \<longrightarrow>
      call env ec (Plain arg) w =
        (case post_http env (ec_api ec) (ec_service_url ec @ sub)
                (PDict [(''content'', arg)])
                (AList.update ''Content-Type'' (PStr ''application/json'')
                   (AList.update ''Accept-Encoding'' (PStr ''gzip'')
                      (AList.update ''Accept'' (PStr ''application/json'')
                         (if ec_debug ec
                          then AList.update ''X-RosetteAPI-Devel'' (PBool True)
                                 (case ec_user_key ec of
                                    None \<Rightarrow> []
                                  | Some key \<Rightarrow>
                                      [(''X-RosetteAPI-Key'', PStr key),
                                       (''X-RosetteAPI-Binding'', PStr ''python''),
                                       (''X-RosetteAPI-Binding-Version'',
                                        PStr BINDING_VERSION)])
                          else (case ec_user_key ec of
                                  None \<Rightarrow> []
                                | Some key \<Rightarrow>
                                    [(''X-RosetteAPI-Key'', PStr key),
                                     (''X-RosetteAPI-Binding'', PStr ''python''),
                                     (''X-RosetteAPI-Binding-Version'',
                                      PStr BINDING_VERSION)])))))
                w of
           (Inl e, api1, w1) \<Rightarrow>
             (Inl e, ec\<lparr>ec_useMultipart := False, ec_api := api1\<rparr>, w1)
         | (Inr r, api1, w1) \<Rightarrow>
             (finish_result (ec\<lparr>ec_useMultipart := False\<rparr>) r ''operate'',
              ec\<lparr>ec_useMultipart := False, ec_api := api1\<rparr>, w1)))
   \<and> (suburl ec = Some sub \<and> (sub = ''name-similarity'' \<or> sub = ''name-translation'') \<longrightarrow>
      call env ec (Plain arg) w =
        (Inl (RosetteException (PStr ''incompatible'')
                (PStr ''Text-only input only works for DocumentParameter endpoints'')
                (PStr sub)), ec, w))"
proof (intro conjI impI)
  assume "suburl ec \<noteq> Some ''name-similarity'' \<and> suburl ec \<noteq> Some ''name-translation''"
  then show "call env ec (Plain arg) w =
        call_container env ec
          \<lparr>klass = DocumentParameters,
           params = [(''content'', arg), (''contentUri'', PNone),
                     (''language'', PNone), (''genre'', PNone)],
           file_name = Some '''', useMultipart = False\<rparr> w"
    by (simp add: call_def wrap_plain)
next
  assume "arg \<noteq> PNone"
  then show "serialize \<lparr>klass = DocumentParameters,
                 params = [(''content'', arg), (''contentUri'', PNone),
                           (''language'', PNone), (''genre'', PNone)],
                 file_name = Some '''', useMultipart = False\<rparr> =
        Inr [(''content'', arg)]"
    by (rule serialize_wrapped)
next
  assume a: "suburl ec = Some sub \<and> sub \<noteq> ''name-similarity'' \<and> sub \<noteq> ''name-translation'' \<and>
      arg \<noteq> PNone"
  then have ser: "serialize \<lparr>klass = DocumentParameters,
                 params = [(''content'', arg), (''contentUri'', PNone),
                           (''language'', PNone), (''genre'', PNone)],
                 file_name = Some '''', useMultipart = False\<rparr> =
        Inr [(''content'', arg)]"
    by (simp add: serialize_wrapped)
  from a show "call env ec (Plain arg) w =
        (case post_http env (ec_api ec) (ec_service_url ec @ sub)
                (PDict [(''content'', arg)])
                (AList.update ''Content-Type'' (PStr ''application/json'')
                   (AList.update ''Accept-Encoding'' (PStr ''gzip'')
                      (AList.update ''Accept'' (PStr ''application/json'')
                         (if ec_debug ec
                          then AList.update ''X-RosetteAPI-Devel'' (PBool True)
                                 (case ec_user_key ec of
                                    None \<Rightarrow> []
                                  | Some key \<Rightarrow>
                                      [(''X-RosetteAPI-Key'', PStr key),
                                       (''X-RosetteAPI-Binding'', PStr ''python''),
                                       (''X-RosetteAPI-Binding-Version'',
                                        PStr BINDING_VERSION)])
                          else (case ec_user_key ec of
                                  None \<Rightarrow> []
                                | Some key \<Rightarrow>
                                    [(''X-RosetteAPI-Key'', PStr key),
                                     (''X-RosetteAPI-Binding'', PStr ''python''),
                                     (''X-RosetteAPI-Binding-Version'',
                                      PStr BINDING_VERSION)])))))
                w of
           (Inl e, api1, w1) \<Rightarrow>
             (Inl e, ec\<lparr>ec_useMultipart := False, ec_api := api1\<rparr>, w1)
         | (Inr r, api1, w1) \<Rightarrow>
             (finish_result (ec\<lparr>ec_useMultipart := False\<rparr>) r ''operate'',
              ec\<lparr>ec_useMultipart := False, ec_api := api1\<rparr>, w1))"
    by (simp add: call_def wrap_plain call_container_def Let_def ser
          split: prod.splits sum.splits)
next
  assume "suburl ec = Some sub \<and> (sub = ''name-similarity'' \<or> sub = ''name-translation'')"
  then show "call env ec (Plain arg) w =
        (Inl (RosetteException (PStr ''incompatible'')
                (PStr ''Text-only input only works for DocumentParameter endpoints'')
                (PStr sub)), ec, w)"
    by (auto simp: call_def)
qed

theorem call_plain_text_witness:
  "call sample_env ec_entities (Plain (PStr ''Bonjour''))
     (world_always (Response 200 json_ok_true [])) =
   call_container sample_env ec_entities
     \<lparr>klass = DocumentParameters,
      params = [(''content'', PStr ''Bonjour''), (''contentUri'', PNone),
                (''language'', PNone), (''genre'', PNone)],
      file_name = Some '''', useMultipart = False\<rparr>
     (world_always (Response 200 json_ok_true []))
   \<and> fst (call sample_env ec_entities (Plain (PStr ''Bonjour''))
          (world_always (Response 200 json_ok_true []))) =
     Inr [(''ok'', PBool True), (''responseHeaders'', PDict [])]
   \<and> trace (snd (snd (call sample_env ec_entities (Plain (PStr ''Bonjour''))
          (world_always (Response 200 json_ok_true []))))) =
       [NewConnection (HTTPSConnection ''api.rosette.com''),
        Open,
        Request \<lparr>rq_op = ''POST'', rq_url = ''https://api.rosette.com/rest/v1/entities'',
                 rq_data = PStr (''{'' @ [CHR 0x22] @ ''content'' @ [CHR 0x22] @ '': '' @
                                 [CHR 0x22] @ ''Bonjour'' @ [CHR 0x22] @ ''}''),
                 rq_headers =
                   [(''X-RosetteAPI-Key'', PStr ''k3y''),
                    (''X-RosetteAPI-Binding'', PStr ''python''),
                    (''X-RosetteAPI-Binding-Version'', PStr ''1.1''),
                    (''Accept'', PStr ''application/json''),
                    (''Accept-Encoding'', PStr ''gzip''),
                    (''Content-Type'', PStr ''application/json''),
                    (''User-Agent'', PStr ''RosetteAPIPython/1.1'')]\<rparr>]
   \<and> serialize \<lparr>klass = DocumentParameters,
                 params = [(''content'', PStr ''Bonjour''), (''contentUri'', PNone),
                           (''language'', PNone), (''genre'', PNone)],
                 file_name = Some '''', useMultipart = False\<rparr> =
       Inr [(''content'', PStr ''Bonjour'')]
   \<and> call sample_env ec_name_similarity (Plain (PStr ''Bonjour''))
        (world_always (Response 200 json_ok_true [])) =
       (Inl (RosetteException (PStr ''incompatible'')
               (PStr ''Text-only input only works for DocumentParameter endpoints'')
               (PStr ''name-similarity'')), ec_name_similarity,
        world_always (Response 200 json_ok_true []))"
proof -
  let ?w = "world_always (Response 200 json_ok_true [])"
  let ?D = "PDict [(''content'', PStr ''Bonjour'')]"
  let ?jd = "''{'' @ [CHR 0x22] @ ''content'' @ [CHR 0x22] @ '': '' @
             [CHR 0x22] @ ''Bonjour'' @ [CHR 0x22] @ ''}''"
  have n: "int 0 \<le> num_retries api_default"
    by (simp add: api_default_def API_init_def)
  have d: "(if ?D = PNone then Inr '''' else json_dumps sample_env ?D) = Inr ?jd"
    by (simp add: sample_env_def)
  have r429: "\<forall>j<0. server ?w (sent ?w + j) = Response 429 '''' []"
    by simp
  have r200: "server ?w (sent ?w + 0) = Response 200 json_ok_true []"
    by (simp add: world_always_def)
  have len: "\<not> (3 < length json_ok_true \<and> take 3 json_ok_true = GZIP_SIGNATURE)"
    by (simp add: json_ok_true_def GZIP_SIGNATURE_def)
  have j: "json_loads sample_env json_ok_true = Some (PDict [(''ok'', PBool True)])"
    by (simp add: sample_env_def)
  have a: "reuse_connection api_default" "http_connection api_default = None"
    by (simp_all add: api_default_def API_init_def)
  have pf: "fst (post_http sample_env api_default url ?D headers ?w) =
      Inr \<lparr>r_json = [(''ok'', PBool True), (''responseHeaders'', PDict [])],
           status_code = 200\<rparr>" for url headers
    using post_http_200 [OF n d r429 r200, of url headers] len
    by (simp add: my_loads_def j dict_update_def dict_of_pairs_def)
  have ps: "trace (snd (snd (post_http sample_env api_default url ?D headers ?w))) =
      [NewConnection (new_connection (urlparse sample_env url)), Open,
       Request \<lparr>rq_op = ''POST'', rq_url = url, rq_data = PStr ?jd,
                rq_headers = AList.update ''User-Agent'' (PStr ''RosetteAPIPython/1.1'')
                               headers\<rparr>]" for url headers
    unfolding post_http_snd [OF d]
      make_request_429s_then_200 [OF n r429 r200, of sample_env "''POST''" url "PStr ?jd" headers]
    by (simp add: a attempts_429_0 world_always_def BINDING_VERSION_def)
  have s: "suburl ec_entities = Some ''entities''" "\<not> ec_debug ec_entities"
    "ec_api ec_entities = api_default" "ec_user_key ec_entities = Some ''k3y''"
    "ec_service_url ec_entities = ''https://api.rosette.com/rest/v1/''"
    "suburl ec_name_similarity = Some ''name-similarity''"
    by (simp_all add: ec_entities_def ec_name_similarity_def EndpointCaller_init_def
          api_default_def API_init_def)
  have u: "urlparse sample_env ''https://api.rosette.com/rest/v1/entities'' =
      (''https'', ''api.rosette.com'')"
    by (simp add: sample_env_def)
  from call_plain_text [where ec = ec_entities and env = sample_env
      and arg = "PStr ''Bonjour''" and w = ?w and sub = "''entities''", THEN conjunct1]
  have A: "call sample_env ec_entities (Plain (PStr ''Bonjour''))
         (world_always (Response 200 json_ok_true [])) =
       call_container sample_env ec_entities
         \<lparr>klass = DocumentParameters,
          params = [(''content'', PStr ''Bonjour''), (''contentUri'', PNone),
                    (''language'', PNone), (''genre'', PNone)],
          file_name = Some '''', useMultipart = False\<rparr>
         (world_always (Response 200 json_ok_true []))"
    by (simp add: s)
  from call_plain_text [where ec = ec_entities and env = sample_env
      and arg = "PStr ''Bonjour''" and w = ?w and sub = "''entities''", THEN conjunct2]
    call_plain_text [where ec = ec_name_similarity and env = sample_env
      and arg = "PStr ''Bonjour''" and w = ?w and sub = "''name-similarity''"]
  have B: "fst (call sample_env ec_entities (Plain (PStr ''Bonjour''))
              (world_always (Response 200 json_ok_true []))) =
         Inr [(''ok'', PBool True), (''responseHeaders'', PDict [])]
       \<and> trace (snd (snd (call sample_env ec_entities (Plain (PStr ''Bonjour''))
              (world_always (Response 200 json_ok_true []))))) =
           [NewConnection (HTTPSConnection ''api.rosette.com''),
            Open,
            Request \<lparr>rq_op = ''POST'', rq_url = ''https://api.rosette.com/rest/v1/entities'',
                     rq_data = PStr (''{'' @ [CHR 0x22] @ ''content'' @ [CHR 0x22] @ '': '' @
                                     [CHR 0x22] @ ''Bonjour'' @ [CHR 0x22] @ ''}''),
                     rq_headers =
                       [(''X-RosetteAPI-Key'', PStr ''k3y''),
                        (''X-RosetteAPI-Binding'', PStr ''python''),
                        (''X-RosetteAPI-Binding-Version'', PStr ''1.1''),
                        (''Accept'', PStr ''application/json''),
                        (''Accept-Encoding'', PStr ''gzip''),
                        (''Content-Type'', PStr ''application/json''),
                        (''User-Agent'', PStr ''RosetteAPIPython/1.1'')]\<rparr>]
       \<and> serialize \<lparr>klass = DocumentParameters,
                     params = [(''content'', PStr ''Bonjour''), (''contentUri'', PNone),
                               (''language'', PNone), (''genre'', PNone)],
                     file_name = Some '''', useMultipart = False\<rparr> =
           Inr [(''content'', PStr ''Bonjour'')]
       \<and> call sample_env ec_name_similarity (Plain (PStr ''Bonjour''))
            (world_always (Response 200 json_ok_true [])) =
           (Inl (RosetteException (PStr ''incompatible'')
                   (PStr ''Text-only input only works for DocumentParameter endpoints'')
                   (PStr ''name-similarity'')), ec_name_similarity,
            world_always (Response 200 json_ok_true []))"
    by (simp add: s case_prod_beta pf ps u finish_result_def new_connection_def
          BINDING_VERSION_def)
  from A B show ?thesis by blast
qed

section \<open>Properties of the multipart upload\<close>

lemma filter_key:
  "distinct (map fst xs) \<Longrightarrow>
   filter (\<lambda>(k, v). k = key) xs =
     (case map_of xs key of None \<Rightarrow> [] | Some v \<Rightarrow> [(key, v)])"
proof (induction xs)
  case Nil
  then show ?case by simp
next
  case (Cons x xs)
  obtain k v where x: "x = (k, v)" by (cases x)
  show ?case
  proof (cases "k = key")
    case True
    with Cons.prems x have "key \<notin> fst ` set xs" by simp
    then have "filter (\<lambda>(k, v). k = key) xs = []"
      by (force simp: filter_empty_conv)
    moreover from \<open>key \<notin> fst ` set xs\<close> have "map_of xs key = None"
      by (simp add: map_of_eq_None_iff)
    ultimately show ?thesis using True x by simp
  next
    case False
    with Cons x show ?thesis by simp
  qed
qed

lemma distinct_filter_set:
  "distinct (map fst xs) \<Longrightarrow> distinct (map fst (filter (\<lambda>(k, v). v \<noteq> PNone) xs))"
  by (simp add: distinct_map_filter)

lemma serialize_document_ok:
  assumes "wf_params p" and "is_document p"
    and "param p ''content'' \<noteq> PNone" and "param p ''contentUri'' = PNone"
  shows "serialize p = Inr (filter (\<lambda>(k, v). v \<noteq> PNone) (params p))"
proof -
  from validate_document_eq [OF assms(1,2)] assms(3,4) have v: "validate p = Inr ()"
    by simp
  from assms(2) have "serialize p =
      (case validate p of Inl e \<Rightarrow> Inl e | Inr _ \<Rightarrow> base_serialize p)"
    by (auto simp: is_document_def serialize_def)
  with v base_serialize_ok [OF assms(1) v] show ?thesis by simp
qed

lemma serialize_document_both:
  assumes "wf_params p" and "is_document p"
    and "param p ''content'' \<noteq> PNone" and "param p ''contentUri'' \<noteq> PNone"
  shows "serialize p =
     Inl (RosetteException (PStr ''badArgument'')
            (PStr ''Cannot supply both Content and ContentUri'') (PStr ''bad arguments''))"
proof -
  from assms(2) have "serialize p =
      (case validate p of Inl e \<Rightarrow> Inl e | Inr _ \<Rightarrow> base_serialize p)"
    by (auto simp: is_document_def serialize_def)
  with validate_document_eq [OF assms(1,2)] assms(3,4) show ?thesis by simp
qed

lemma load_document_file_result:
  assumes "wf_params p0" and "is_document p0"
    and "load_document_file read_file p0 path = Inr p"
  shows "\<exists>bytes. read_file path = Some bytes \<and>
     p = p0\<lparr>params := AList.update ''content'' (PStr bytes) (params p0),
            file_name := Some path, useMultipart := True\<rparr>"
proof -
  from assms(2) have "''content'' \<in> set (repertoire (klass p0))"
    by (auto simp: is_document_def repertoire_def)
  with map_of_wf [OF assms(1)] have k: "map_of (params p0) ''content'' \<noteq> None" by blast
  from assms(3) k show ?thesis
    by (auto simp: load_document_file_def load_document_string_def setitem_def Let_def
        split: option.splits)
qed

lemma param_update:
  "param (p\<lparr>params := AList.update k v (params p), file_name := f, useMultipart := m\<rparr>) key =
     (if key = k then v else param p key)"
  by (simp add: param_def update_conv')

lemma wf_updated:
  assumes "wf_params p" and "k \<in> set (repertoire (klass p))"
  shows "wf_params (p\<lparr>params := AList.update k v (params p), file_name := f,
                      useMultipart := m\<rparr>)"
proof -
  from assms have "k \<in> set (map fst (params p))"
    by (simp add: wf_params_def)
  then have "map fst (AList.update k v (params p)) = map fst (params p)"
    by (simp add: update_keys)
  with assms(1) show ?thesis by (simp add: wf_params_def)
qed

lemma serialized_lookup:
  assumes "wf_params p"
  shows "map_of (filter (\<lambda>(k, v). v \<noteq> PNone) (params p)) key =
     (if param p key = PNone then None else Some (param p key))"
  using map_of_filter_set [OF wf_params_distinct [OF assms], of key]
  by (simp add: param_def split: option.splits)

lemma request_params_eq:
  assumes "wf_params p"
  shows "filter (\<lambda>(key, val). key = ''language'') (filter (\<lambda>(k, v). v \<noteq> PNone) (params p)) =
     (if param p ''language'' = PNone then [] else [(''language'', param p ''language'')])"
  using filter_key [OF distinct_filter_set [OF wf_params_distinct [OF assms]], of "''language''"]
  by (simp add: serialized_lookup [OF assms])

lemma params_doc_lang_eng:
  "params doc_lang_eng =
     [(''content'', PNone), (''contentUri'', PNone), (''language'', PStr ''eng''),
      (''genre'', PNone)]"
  by (simp add: doc_lang_eng_def new_DocumentParameters_def repertoire_def base_init_def)

lemma wf_doc_lang_eng: "wf_params doc_lang_eng"
  by (simp add: wf_params_def params_doc_lang_eng)
     (simp add: doc_lang_eng_def new_DocumentParameters_def repertoire_def)

lemma load_doc_lang_eng:
  "load_document_file sample_files doc_lang_eng ''/tmp/doc.txt'' = Inr doc_from_file"
  by (simp add: load_document_file_def load_document_string_def setitem_def Let_def
        sample_files_def params_doc_lang_eng doc_from_file_def)
     (simp add: doc_lang_eng_def new_DocumentParameters_def)

lemma call_container_multipart:
  assumes "\<not> is_py3 env"
    and "wf_params p" and "is_document p"
    and "useMultipart p" and "file_name p = Some fname"
    and "param p ''content'' \<noteq> PNone" and "param p ''contentUri'' = PNone"
    and "suburl ec = Some sub"
    and "json_dumps env (PDict (if param p ''language'' = PNone then []
                                else [(''language'', param p ''language'')])) =
         Inr request_json"
  shows "snd (snd (call_container env ec p w)) =
     w\<lparr>sent := Suc (sent w),
       trace := trace w @
         [SessionSend
            \<lparr>mp_method = ''POST'', mp_url = ec_service_url ec @ sub,
             mp_files =
               [(''content'', basename fname, param p ''content'', ''text/plain''),
                (''request'', ''request_options'', PStr request_json,
                 ''application/json'')],
             mp_headers =
               (case ec_user_key ec of
                  None \<Rightarrow> []
                | Some key \<Rightarrow>
                    [(''X-RosetteAPI-Key'', PStr key),
                     (''X-RosetteAPI-Binding'', PStr ''python''),
                     (''X-RosetteAPI-Binding-Version'', PStr BINDING_VERSION)])\<rparr>]\<rparr>"
proof -
  note ser = serialize_document_ok [OF assms(2,3,6,7)]
  have content: "map_of (filter (\<lambda>(k, v). v \<noteq> PNone) (params p)) ''content'' =
      Some (param p ''content'')"
    using assms(6) by (simp add: serialized_lookup [OF assms(2)])
  show ?thesis
    using assms(1,4,5,8,9)
    by (simp add: call_container_def call_multipart_branch_def Let_def ser content
          request_params_eq [OF assms(2)] session_send_def emit_def
        del: filter_filter split: outcome.splits sum.splits)
qed

text \<open>
  The multipart upload under Python 2. \<^verbatim>\<open>load_document_file\<close> sets \<^verbatim>\<open>useMultipart\<close>, the
  file name and the content. For a document container whose \<^verbatim>\<open>contentUri\<close> is unset, so
  that validation passes, \<^verbatim>\<open>call\<close> on a caller bound to a sub-path sends exactly one
  request, through \<^verbatim>\<open>requests\<close> and not through \<^verbatim>\<open>_make_request\<close>, whatever the server
  answers: the part \<^verbatim>\<open>content\<close> with the file's base name, its bytes and \<^verbatim>\<open>text/plain\<close>,
  and the part \<^verbatim>\<open>request\<close> with the JSON of an object that holds the key \<^verbatim>\<open>language\<close>
  when it is set and nothing else.
\<close>

lemma call_multipart_python2:
  assumes "\<not> is_py3 env"
    and "wf_params p0" and "is_document p0"
    and "param p0 ''contentUri'' = PNone"
    and "load_document_file read_file p0 path = Inr p"
    and "suburl ec = Some sub"
    and "json_dumps env (PDict (if param p ''language'' = PNone then []
                                else [(''language'', param p ''language'')])) =
         Inr request_json"
  shows "useMultipart p \<and> file_name p = Some path
     \<and> (\<exists>bytes. read_file path = Some bytes \<and> param p ''content'' = PStr bytes
          \<and> snd (snd (call env ec (Container p) w)) =
              w\<lparr>sent := Suc (sent w),
                trace := trace w @
                  [SessionSend
                     \<lparr>mp_method = ''POST'', mp_url = ec_service_url ec @ sub,
                      mp_files =
                        [(''content'', basename path, PStr bytes, ''text/plain''),
                         (''request'', ''request_options'', PStr request_json,
                          ''application/json'')],
                      mp_headers =
                        (case ec_user_key ec of
                           None \<Rightarrow> []
                         | Some key \<Rightarrow>
                             [(''X-RosetteAPI-Key'', PStr key),
                              (''X-RosetteAPI-Binding'', PStr ''python''),
                              (''X-RosetteAPI-Binding-Version'', PStr BINDING_VERSION)])\<rparr>]\<rparr>)"
proof -
  from load_document_file_result [OF assms(2,3,5)] obtain bytes where
    rf: "read_file path = Some bytes" and
    p: "p = p0\<lparr>params := AList.update ''content'' (PStr bytes) (params p0),
            file_name := Some path, useMultipart := True\<rparr>"
    by blast
  from assms(3) have key: "''content'' \<in> set (repertoire (klass p0))"
    by (auto simp: is_document_def repertoire_def)
  have wf: "wf_params p" unfolding p by (rule wf_updated [OF assms(2) key])
  have doc: "is_document p" using assms(3) by (simp add: p is_document_def)
  have m: "useMultipart p" and f: "file_name p = Some path" by (simp_all add: p)
  have c: "param p ''content'' = PStr bytes" unfolding p by (simp add: param_update)
  have u: "param p ''contentUri'' = PNone"
    unfolding p using assms(4) by (simp add: param_update)
  from c have c': "param p ''content'' \<noteq> PNone" by simp
  from call_container_multipart [OF assms(1) wf doc m f c' u assms(6,7), of w] rf c m f
  show ?thesis
    by (auto simp: call_def)
qed

text \<open>
  Under Python 2 the file \<^verbatim>\<open>/tmp/doc.txt\<close>, loaded into a container whose language is
  \<^verbatim>\<open>eng\<close>, is uploaded in one request with the two parts, also when the server answers
  429.
\<close>

lemma call_multipart_python2_example:
  "trace (snd (snd (call sample_env ec_entities (Container doc_from_file)
        (world_always (Response 429 ''slow down'' []))))) =
       [SessionSend
          \<lparr>mp_method = ''POST'', mp_url = ''https://api.rosette.com/rest/v1/entities'',
           mp_files =
             [(''content'', ''doc.txt'', PStr ''Bonjour'', ''text/plain''),
              (''request'', ''request_options'',
               PStr (''{'' @ [CHR 0x22] @ ''language'' @ [CHR 0x22] @ '': '' @
                     [CHR 0x22] @ ''eng'' @ [CHR 0x22] @ ''}''),
               ''application/json'')],
           mp_headers =
             [(''X-RosetteAPI-Key'', PStr ''k3y''),
              (''X-RosetteAPI-Binding'', PStr ''python''),
              (''X-RosetteAPI-Binding-Version'', PStr ''1.1'')]\<rparr>]
   \<and> sent (snd (snd (call sample_env ec_entities (Container doc_from_file)
        (world_always (Response 429 ''slow down'' []))))) = 1"
proof -
  have py: "\<not> is_py3 sample_env" by (simp add: sample_env_def)
  have d: "is_document doc_lang_eng"
    by (simp add: is_document_def doc_lang_eng_def new_DocumentParameters_def)
  have u: "param doc_lang_eng ''contentUri'' = PNone"
    by (simp add: param_def params_doc_lang_eng)
  have s: "suburl ec_entities = Some ''entities''"
    by (simp add: ec_entities_def EndpointCaller_init_def)
  have j: "json_dumps sample_env
      (PDict (if param doc_from_file ''language'' = PNone then []
              else [(''language'', param doc_from_file ''language'')])) =
      Inr (''{'' @ [CHR 0x22] @ ''language'' @ [CHR 0x22] @ '': '' @
           [CHR 0x22] @ ''eng'' @ [CHR 0x22] @ ''}'')"
    by (simp add: param_def doc_from_file_def sample_env_def)
  from call_multipart_python2 [OF py wf_doc_lang_eng d u load_doc_lang_eng s j, of
      "world_always (Response 429 ''slow down'' [])"]
  show ?thesis
    by (simp add: sample_files_def doc_from_file_def param_def basename_def
          ec_entities_def EndpointCaller_init_def api_default_def API_init_def
          BINDING_VERSION_def world_always_def)
qed

lemma serialize_doc_from_file:
  "serialize doc_from_file = Inr [(''content'', PStr ''Bonjour''), (''language'', PStr ''eng'')]"
proof -
  have wf: "wf_params doc_from_file"
    by (simp add: wf_params_def doc_from_file_def repertoire_def)
  have d: "is_document doc_from_file"
    by (simp add: is_document_def doc_from_file_def)
  show ?thesis
    using serialize_document_ok [OF wf d] by (simp add: param_def doc_from_file_def)
qed

text \<open>
  Claim C5 under Python 3. The file \<^verbatim>\<open>/tmp/doc.txt\<close> is loaded into a fresh document
  container whose language is \<^verbatim>\<open>eng\<close>: the container is in multipart mode, carries the
  file name and passes validation. \<^verbatim>\<open>call\<close> then reaches line 444, where
  \<^verbatim>\<open>params_to_serialize.iteritems()\<close> raises \<^verbatim>\<open>AttributeError\<close>: no multipart request
  is built and nothing is sent.
\<close>

theorem call_multipart_python3:
  "load_document_file sample_files doc_lang_eng ''/tmp/doc.txt'' = Inr doc_from_file
   \<and> useMultipart doc_from_file \<and> file_name doc_from_file = Some ''/tmp/doc.txt''
   \<and> serialize doc_from_file =
       Inr [(''content'', PStr ''Bonjour''), (''language'', PStr ''eng'')]
   \<and> is_py3 sample_env_py3
   \<and> call sample_env_py3 ec_entities (Container doc_from_file)
        (world_always (Response 200 json_ok_true [])) =
       (Inl (AttributeError ''iteritems''), ec_entities\<lparr>ec_useMultipart := True\<rparr>,
        world_always (Response 200 json_ok_true []))
   \<and> trace (world_always (Response 200 json_ok_true [])) = []"
proof -
  have s: "suburl ec_entities = Some ''entities''"
    by (simp add: ec_entities_def EndpointCaller_init_def)
  have m: "useMultipart doc_from_file" "file_name doc_from_file = Some ''/tmp/doc.txt''"
    by (simp_all add: doc_from_file_def)
  have py: "is_py3 sample_env_py3"
    by (simp add: sample_env_py3_def)
  have c: "call sample_env_py3 ec_entities (Container doc_from_file)
        (world_always (Response 200 json_ok_true [])) =
       (Inl (AttributeError ''iteritems''), ec_entities\<lparr>ec_useMultipart := True\<rparr>,
        world_always (Response 200 json_ok_true []))"
    by (simp add: call_def call_container_def call_multipart_branch_def Let_def
          serialize_doc_from_file s m py)
  show ?thesis
    by (simp add: load_doc_lang_eng serialize_doc_from_file m py c)
       (simp add: world_always_def)
qed

text \<open>
  A document container with \<^verbatim>\<open>contentUri\<close> set into which a file is then loaded is in
  multipart mode, yet \<^verbatim>\<open>call\<close> raises \<^verbatim>\<open>badArgument\<close> at serialization and sends
  nothing, under either interpreter.
\<close>

lemma call_multipart_content_uri_example:
  "load_document_file sample_files doc_with_uri ''/tmp/doc.txt'' = Inr doc_file_and_uri
   \<and> useMultipart doc_file_and_uri
   \<and> fst (call env ec_entities (Container doc_file_and_uri)
            (world_always (Response 200 json_ok_true []))) =
       Inl (RosetteException (PStr ''badArgument'')
              (PStr ''Cannot supply both Content and ContentUri'') (PStr ''bad arguments''))
   \<and> trace (snd (snd (call env ec_entities (Container doc_file_and_uri)
            (world_always (Response 200 json_ok_true []))))) = []
   \<and> sent (snd (snd (call env ec_entities (Container doc_file_and_uri)
            (world_always (Response 200 json_ok_true []))))) = 0"
proof -
  have p: "params doc_with_uri =
      [(''content'', PNone), (''contentUri'', PStr ''http://example.com/a.html''),
       (''language'', PNone), (''genre'', PNone)]"
    by (simp add: doc_with_uri_def new_DocumentParameters_def repertoire_def base_init_def)
  have l: "load_document_file sample_files doc_with_uri ''/tmp/doc.txt'' = Inr doc_file_and_uri"
    by (simp add: load_document_file_def load_document_string_def setitem_def Let_def
          sample_files_def p doc_file_and_uri_def)
       (simp add: doc_with_uri_def new_DocumentParameters_def)
  have wf: "wf_params doc_file_and_uri"
    by (simp add: wf_params_def doc_file_and_uri_def repertoire_def)
  have d: "is_document doc_file_and_uri"
    by (simp add: is_document_def doc_file_and_uri_def)
  have ser: "serialize doc_file_and_uri =
      Inl (RosetteException (PStr ''badArgument'')
             (PStr ''Cannot supply both Content and ContentUri'') (PStr ''bad arguments''))"
    by (rule serialize_document_both [OF wf d])
       (simp_all add: param_def doc_file_and_uri_def)
  have s: "suburl ec_entities = Some ''entities''"
    by (simp add: ec_entities_def EndpointCaller_init_def)
  show ?thesis
    by (simp add: l call_def call_container_def Let_def ser s)
       (simp add: doc_file_and_uri_def world_always_def)
qed

text \<open>
  A file upload under Python 2 answered with status 500 and the body \<^verbatim>\<open>{}\<close>: the
  multipart path hands the status to \<^verbatim>\<open>__finish_result\<close>, whose lookup of \<^verbatim>\<open>code\<close>
  raises \<^verbatim>\<open>KeyError\<close>.
\<close>

lemma call_multipart_500_example:
  "fst (call sample_env ec_entities (Container doc_from_file)
          (world_always (Response 500 ''{}'' []))) = Inl (KeyError ''code'')"
proof -
  have s: "suburl ec_entities = Some ''entities''"
    by (simp add: ec_entities_def EndpointCaller_init_def)
  have j: "json_loads sample_env ''{}'' = Some (PDict [])"
    by (simp add: sample_env_def json_ok_true_def)
  have py: "\<not> is_py3 sample_env" by (simp add: sample_env_def)
  have jd: "json_dumps sample_env (PDict [(''language'', PStr ''eng'')]) =
      Inr (''{'' @ [CHR 0x22] @ ''language'' @ [CHR 0x22] @ '': '' @
           [CHR 0x22] @ ''eng'' @ [CHR 0x22] @ ''}'')"
    by (simp add: sample_env_def)
  have m: "useMultipart doc_from_file" "file_name doc_from_file = Some ''/tmp/doc.txt''"
    by (simp_all add: doc_from_file_def)
  show ?thesis
    by (simp add: call_def call_container_def call_multipart_branch_def Let_def
          serialize_doc_from_file s m py jd session_send_def
          world_always_def emit_def my_loads_def j dict_update_def dict_of_pairs_def
          finish_result_def)
qed

end
